theory Spec2Isabelle
  imports Main "HOL-Library.Word"
begin

unbundle bit_operations_syntax

section \<open>Machine types of the sensors multi-HAL proxy (HalProxy.cpp)\<close>

text \<open>
  Sensor handles are \<open>int32_t\<close>; sizes, indices and counters are \<open>size_t\<close>
  (64 bits on an LP64 build). Both are modelled as words, so that \<open>+\<close> and \<open>-\<close> wrap
  the way the C++ does; the signed reading of a handle is \<open>sint\<close>, and \<open>>>\<close> on an
  \<open>int32_t\<close> is the arithmetic shift \<open>signed_drop_bit\<close>. Timestamps (\<open>int64_t\<close>
  nanoseconds) are only compared and stored, and are modelled as \<open>int\<close>.
\<close>

type_synonym int32_t = "32 word"
type_synonym size_t = "64 word"
type_synonym int64_t = int

section \<open>Handle namespace\<close>

definition kBitsAfterSubHalIndex :: nat where
  "kBitsAfterSubHalIndex = 24"

text \<open>
  Modelled from the spec: \<open>kSensorHandleSubHalIndexMask\<close> is declared in HalProxy.h, which
  is not among the sources. The spec fixes the namespace to the top 8 bits of the handle
  (the bits above \<open>kBitsAfterSubHalIndex\<close>).
\<close>

definition kSensorHandleSubHalIndexMask :: int32_t where
  "kSensorHandleSubHalIndexMask = 0xFF000000"

text \<open>
  \<open>sensorHandle | (static_cast<int32_t>(subHalIndex) << kBitsAfterSubHalIndex)\<close>:
  the cast keeps the low 32 bits of the \<open>size_t\<close>.
\<close>

definition setSubHalIndex :: "int32_t \<Rightarrow> size_t \<Rightarrow> int32_t" where
  "setSubHalIndex sensorHandle subHalIndex =
     sensorHandle OR push_bit kBitsAfterSubHalIndex (ucast subHalIndex :: int32_t)"

text \<open>
  \<open>static_cast<size_t>(sensorHandle >> kBitsAfterSubHalIndex)\<close>: an arithmetic shift
  of the signed handle, then a sign-extending conversion to \<open>size_t\<close>.
\<close>

definition extractSubHalIndex :: "int32_t \<Rightarrow> size_t" where
  "extractSubHalIndex sensorHandle =
     (scast (signed_drop_bit kBitsAfterSubHalIndex sensorHandle) :: size_t)"

definition clearSubHalIndex :: "int32_t \<Rightarrow> int32_t" where
  "clearSubHalIndex sensorHandle = sensorHandle AND NOT kSensorHandleSubHalIndexMask"

definition subHalIndexIsClear :: "int32_t \<Rightarrow> bool" where
  "subHalIndexIsClear sensorHandle \<longleftrightarrow> sensorHandle AND kSensorHandleSubHalIndexMask = 0"

section \<open>Interface types\<close>

text \<open>
  Modelled from the spec: the enums and structs of the sensors HIDL interface
  (\<open>Result\<close>, \<open>OperationMode\<close>, \<open>SensorType\<close>, \<open>RateLevel\<close>, \<open>Event\<close>,
  \<open>SensorInfo\<close>, \<open>SharedMemInfo\<close>) are declared outside the sources. Only the members
  HalProxy.cpp reads or writes are kept: the result codes it returns (the spec's
  "bad argument" is \<open>BAD_VALUE\<close>, its "unsupported operation" is
  \<open>INVALID_OPERATION\<close>; the other constructors are failures a backend may report), the
  handle and the type of an event, the handle, name and flag word of a sensor descriptor.
\<close>

datatype Result = OK | PERMISSION_DENIED | NO_MEMORY | BAD_VALUE | INVALID_OPERATION

datatype OperationMode = NORMAL | DATA_INJECTION

datatype SensorType = ADDITIONAL_INFO | OTHER_SENSOR_TYPE nat

datatype RateLevel = RATE_STOP | RATE_NORMAL | RATE_FAST | RATE_VERY_FAST

type_synonym SharedMemInfo = nat

record Event =
  timestamp :: int64_t
  eventSensorHandle :: int32_t
  sensorType :: SensorType

record SensorInfo =
  infoSensorHandle :: int32_t
  sensorName :: string
  flags :: "32 word"

text \<open>A value-initialised \<open>SensorInfo\<close>, which \<open>std::map::operator[]\<close> inserts for a missing key.\<close>

definition defaultSensorInfo :: SensorInfo where
  "defaultSensorInfo = \<lparr>infoSensorHandle = 0, sensorName = [], flags = 0\<rparr>"

section \<open>The proxy state\<close>

text \<open>
  A call on a sub-HAL (\<open>ISensorsSubHal\<close>) is recorded in a trace, with the index of the
  sub-HAL in \<open>mSubHalList\<close>. What the sub-HAL answers is given by a response function of the
  whole trace up to and including the call, so an answer may depend on everything the proxy
  has asked of any backend so far. The second component of an answer is the channel handle or
  report token of the direct-channel operations.
\<close>

datatype subhal_call =
    SetOperationMode OperationMode
  | Activate int32_t bool
  | Batch int32_t int64_t int64_t
  | Flush int32_t
  | InjectSensorData Event
  | RegisterDirectChannel SharedMemInfo
  | UnregisterDirectChannel int32_t
  | ConfigDirectReport int32_t int32_t RateLevel

type_synonym subhal_trace = "(nat \<times> subhal_call) list"
type_synonym subhal_response = "subhal_trace \<Rightarrow> Result \<times> int32_t"

datatype log_msg =
    SetOperationModeFailed string
  | InjectNotAdditionalInfo
  | DynamicSensorHandleNotClear string
  | SubHalSensorHandleNotClear
  | GetSensorsListFailed string
  | DroppingEvents nat

text \<open>
  An entry of \<open>mSubHalList\<close> is a pointer to a sub-HAL: \<open>subHalObject\<close> is the object it
  points to, so that two pointers are equal exactly when their objects are, and \<open>getName\<close>
  is what \<open>getName()\<close> of that object returns.
\<close>

record ISensorsSubHal =
  subHalObject :: nat
  getName :: string

text \<open>
  The members of \<open>HalProxy\<close> that the modelled functions touch. \<open>mDirectChannelSubHal\<close>
  is \<open>None\<close> for \<open>nullptr\<close> and otherwise the index in \<open>mSubHalList\<close> of the entry it was
  assigned from; it is compared with another pointer by the objects. \<open>wakeLockHeld\<close> is the
  OS wake lock \<open>kWakelockName\<close> (\<open>acquire_wake_lock\<close> sets it, \<open>release_wake_lock\<close>
  clears it). \<open>mEventQueue\<close> is the sequence of events written to the event FMQ so far, in
  order. \<open>dynamicSensorsConnected\<close> is the sequence of notifications passed upstream through
  \<open>mDynamicSensorsCallback\<close>, and \<open>errorLog\<close> the sequence of \<open>ALOGE\<close> messages.
\<close>

record HalProxy =
  mSubHalList :: "ISensorsSubHal list"
  subHalCalls :: subhal_trace
  mSensors :: "int32_t \<rightharpoonup> SensorInfo"
  mDynamicSensors :: "int32_t \<rightharpoonup> SensorInfo"
  mDirectChannelSubHal :: "nat option"
  mCurrentOperationMode :: OperationMode
  mThreadsRun :: bool
  mWakelockRefCount :: size_t
  mWakelockTimeoutStartTime :: int64_t
  mWakelockTimeoutResetTime :: int64_t
  wakeLockHeld :: bool
  mPendingWriteEventsQueue :: "(Event list \<times> size_t) list"
  mSizePendingWriteEventsQueue :: size_t
  mMostEventsObservedPendingWriteEventsQueue :: size_t
  mEventQueue :: "Event list"
  dynamicSensorsConnected :: "SensorInfo list list"
  errorLog :: "log_msg list"

definition callSubHal ::
  "subhal_response \<Rightarrow> nat \<Rightarrow> subhal_call \<Rightarrow> HalProxy \<Rightarrow> (Result \<times> int32_t) \<times> HalProxy" where
  "callSubHal rsp subHalIndex c s =
     (let tr = subHalCalls s @ [(subHalIndex, c)]
      in (rsp tr, s\<lparr>subHalCalls := tr\<rparr>))"

definition ALOGE :: "log_msg \<Rightarrow> HalProxy \<Rightarrow> HalProxy" where
  "ALOGE m s = s\<lparr>errorLog := errorLog s @ [m]\<rparr>"

section \<open>The shared wake lock\<close>

text \<open>
  \<open>getTimeNow()\<close> is the argument \<open>now\<close>. The out-parameter \<open>timeoutStart\<close> of the
  increment is \<open>mWakelockTimeoutStartTime\<close> of the returned state.
\<close>

definition incrementRefCountAndMaybeAcquireWakelock ::
  "int64_t \<Rightarrow> size_t \<Rightarrow> HalProxy \<Rightarrow> bool \<times> HalProxy" where
  "incrementRefCountAndMaybeAcquireWakelock now delta s =
     (if \<not> mThreadsRun s then (False, s)
      else
        let s1 = (if mWakelockRefCount s = 0 then s\<lparr>wakeLockHeld := True\<rparr> else s)
        in (True, s1\<lparr>mWakelockTimeoutStartTime := now,
                      mWakelockRefCount := mWakelockRefCount s1 + delta\<rparr>))"

text \<open>The default argument of \<open>timeoutStart\<close> is \<open>-1\<close>.\<close>

definition decrementRefCountAndMaybeReleaseWakelock ::
  "size_t \<Rightarrow> int64_t \<Rightarrow> HalProxy \<Rightarrow> HalProxy" where
  "decrementRefCountAndMaybeReleaseWakelock delta timeoutStart s =
     (if \<not> mThreadsRun s then s
      else
        let timeoutStart' =
              (if timeoutStart = - 1 then mWakelockTimeoutResetTime s else timeoutStart)
        in if mWakelockRefCount s = 0 \<or> timeoutStart' < mWakelockTimeoutResetTime s then s
           else
             let s1 = s\<lparr>mWakelockRefCount :=
                         mWakelockRefCount s - min (mWakelockRefCount s) delta\<rparr>
             in if mWakelockRefCount s1 = 0 then s1\<lparr>wakeLockHeld := False\<rparr> else s1)"

definition resetSharedWakelock :: "int64_t \<Rightarrow> HalProxy \<Rightarrow> HalProxy" where
  "resetSharedWakelock now s =
     (decrementRefCountAndMaybeReleaseWakelock (mWakelockRefCount s) (- 1) s)
       \<lparr>mWakelockTimeoutResetTime := now\<rparr>"

text \<open>
  \<open>stopThreads\<close> clears the run flag, wakes the two background threads and joins them.
  Only the flag is kept here: the threads themselves are modelled one iteration at a time
  (see \<open>handlePendingWrites_iteration\<close>), and the messages \<open>stopThreads\<close> moves through
  the two FMQs to wake them are not part of the state.
\<close>

definition stopThreads :: "HalProxy \<Rightarrow> HalProxy" where
  "stopThreads s = s\<lparr>mThreadsRun := False\<rparr>"

section \<open>The event queue and the pending writes\<close>

text \<open>
  The event FMQ belongs to a library outside the sources. A non-blocking \<open>write\<close> of
  \<open>n\<close> events succeeds exactly when \<open>n\<close> slots are free, and then appends the events.
  The number of free slots changes as the framework reads, so \<open>availableToWrite()\<close> is an
  argument of the functions that ask for it, and so is \<open>getQuantumCount()\<close>.
\<close>

definition eventQueueWrite :: "nat \<Rightarrow> Event list \<Rightarrow> HalProxy \<Rightarrow> bool \<times> HalProxy" where
  "eventQueueWrite availableToWrite evs s =
     (if length evs \<le> availableToWrite then (True, s\<lparr>mEventQueue := mEventQueue s @ evs\<rparr>)
      else (False, s))"

text \<open>
  \<open>kMaxSizePendingWriteEventsQueue\<close> is declared in HalProxy.h, which is not among the
  sources: it is the first argument. \<open>wakelockIsLocked\<close> is \<open>wakelock.isLocked()\<close> of the
  \<open>ScopedWakelock\<close> argument. The wake-ups of the event flag and of the condition variable
  are signals to other threads and leave the state as it is.
\<close>

definition postEventsToMessageQueue ::
  "size_t \<Rightarrow> int64_t \<Rightarrow> nat \<Rightarrow> Event list \<Rightarrow> size_t \<Rightarrow> bool \<Rightarrow> HalProxy \<Rightarrow> HalProxy" where
  "postEventsToMessageQueue kMaxSizePendingWriteEventsQueue now availableToWrite events
       numWakeupEvents wakelockIsLocked s =
     (let s1 = (if wakelockIsLocked
                then snd (incrementRefCountAndMaybeAcquireWakelock now numWakeupEvents s)
                else s);
          (numToWrite, s2) =
            (if mPendingWriteEventsQueue s1 = [] then
               let n = min (length events) availableToWrite
               in if n > 0 then
                    (case eventQueueWrite availableToWrite (take n events) s1 of
                       (True, s') \<Rightarrow> (n, s')
                     | (False, s') \<Rightarrow> (0, s'))
                  else (n, s1)
             else (0, s1));
          numLeft = length events - numToWrite
      in if numToWrite < length events \<and>
            mSizePendingWriteEventsQueue s2 + of_nat numLeft \<le> kMaxSizePendingWriteEventsQueue
         then
           let eventsLeft = drop numToWrite events;
               size' = mSizePendingWriteEventsQueue s2 + of_nat numLeft
           in s2\<lparr>mPendingWriteEventsQueue :=
                     mPendingWriteEventsQueue s2 @ [(eventsLeft, numWakeupEvents)],
                   mSizePendingWriteEventsQueue := size',
                   mMostEventsObservedPendingWriteEventsQueue :=
                     max (mMostEventsObservedPendingWriteEventsQueue s2) size'\<rparr>
         else s2)"

text \<open>
  \<open>countNumWakeupEvents\<close> reads \<open>mSensors[sensorHandle]\<close>, which inserts a default
  descriptor for a handle the catalog does not have. \<open>WAKE_UP\<close> is a flag bit of the
  interface and is an argument. The loop reads \<open>events[i]\<close> for \<open>i < n\<close>; its only caller
  passes an \<open>n\<close> below the size of the vector.
\<close>

fun countNumWakeupEvents_loop ::
  "32 word \<Rightarrow> Event list \<Rightarrow> size_t \<Rightarrow> HalProxy \<Rightarrow> size_t \<times> HalProxy" where
  "countNumWakeupEvents_loop WAKE_UP [] numWakeupEvents s = (numWakeupEvents, s)"
| "countNumWakeupEvents_loop WAKE_UP (e # es) numWakeupEvents s =
     (let h = eventSensorHandle e;
          (info, s') = (case mSensors s h of
                          Some i \<Rightarrow> (i, s)
                        | None \<Rightarrow> (defaultSensorInfo,
                                   s\<lparr>mSensors := (mSensors s)(h \<mapsto> defaultSensorInfo)\<rparr>))
      in countNumWakeupEvents_loop WAKE_UP es
           (if flags info AND WAKE_UP \<noteq> 0 then numWakeupEvents + 1 else numWakeupEvents) s')"

definition countNumWakeupEvents ::
  "32 word \<Rightarrow> Event list \<Rightarrow> nat \<Rightarrow> HalProxy \<Rightarrow> size_t \<times> HalProxy" where
  "countNumWakeupEvents WAKE_UP events n s = countNumWakeupEvents_loop WAKE_UP (take n events) 0 s"

text \<open>
  One iteration of the loop of \<open>handlePendingWrites\<close>. The loop ends when the run flag is
  cleared and waits on the condition variable while the queue is empty; in both cases the
  state stays as it is. \<open>writeOk\<close> is the result of the blocking write, which depends on the
  framework reading the queue before the timeout.
\<close>

definition handlePendingWrites_iteration ::
  "32 word \<Rightarrow> nat \<Rightarrow> bool \<Rightarrow> HalProxy \<Rightarrow> HalProxy" where
  "handlePendingWrites_iteration WAKE_UP eventQueueSize writeOk s =
     (if \<not> mThreadsRun s then s
      else
        case mPendingWriteEventsQueue s of
          [] \<Rightarrow> s
        | (pendingWriteEvents, numWakeupEvents) # rest \<Rightarrow>
            let numToWrite = min (length pendingWriteEvents) eventQueueSize;
                s1 = (if writeOk
                      then s\<lparr>mEventQueue := mEventQueue s @ take numToWrite pendingWriteEvents\<rparr>
                      else
                        let s' = ALOGE (DroppingEvents numToWrite) s
                        in if numWakeupEvents > 0 then
                             (if length pendingWriteEvents > eventQueueSize then
                                (case countNumWakeupEvents WAKE_UP pendingWriteEvents
                                        eventQueueSize s' of
                                   (c, s'') \<Rightarrow>
                                     decrementRefCountAndMaybeReleaseWakelock c (- 1) s'')
                              else decrementRefCountAndMaybeReleaseWakelock numWakeupEvents
                                     (- 1) s')
                           else s');
                s2 = s1\<lparr>mSizePendingWriteEventsQueue :=
                          mSizePendingWriteEventsQueue s1 - of_nat numToWrite\<rparr>
            in if length pendingWriteEvents > eventQueueSize
               then s2\<lparr>mPendingWriteEventsQueue :=
                         (drop eventQueueSize pendingWriteEvents, numWakeupEvents) # rest\<rparr>
               else s2\<lparr>mPendingWriteEventsQueue := rest\<rparr>)"

text \<open>The thread, for a given sequence of results of its blocking writes.\<close>

fun handlePendingWrites ::
  "32 word \<Rightarrow> nat \<Rightarrow> bool list \<Rightarrow> HalProxy \<Rightarrow> HalProxy" where
  "handlePendingWrites WAKE_UP eventQueueSize [] s = s"
| "handlePendingWrites WAKE_UP eventQueueSize (writeOk # oks) s =
     handlePendingWrites WAKE_UP eventQueueSize oks
       (handlePendingWrites_iteration WAKE_UP eventQueueSize writeOk s)"

section \<open>The callback of a sub-HAL\<close>

text \<open>
  Modelled from the spec: \<open>HalProxy::areThreadsRunning\<close> and \<open>HalProxy::getSensorInfo\<close>
  are defined in HalProxy.h, which is not among the sources. By the spec a post after
  shutdown is a no-op, so the first reads the run flag; the callback "computes the wake-up
  event count" from the merged catalog, so the second looks the stamped handle up, and a
  handle the catalog does not have has no flags.
\<close>

definition areThreadsRunning :: "HalProxy \<Rightarrow> bool" where
  "areThreadsRunning s = mThreadsRun s"

definition getSensorInfo :: "HalProxy \<Rightarrow> int32_t \<Rightarrow> SensorInfo" where
  "getSensorInfo s h = (case mSensors s h of Some i \<Rightarrow> i | None \<Rightarrow> defaultSensorInfo)"

text \<open>
  \<open>mSubHalIndex\<close> of the callback is an \<open>int32_t\<close>, converted to the \<open>size_t\<close>
  parameter of \<open>setSubHalIndex\<close>.
\<close>

fun processEvents ::
  "32 word \<Rightarrow> int32_t \<Rightarrow> HalProxy \<Rightarrow> Event list \<Rightarrow> Event list \<times> size_t" where
  "processEvents WAKE_UP mSubHalIndex s [] = ([], 0)"
| "processEvents WAKE_UP mSubHalIndex s (e # es) =
     (let event = e\<lparr>eventSensorHandle :=
                       setSubHalIndex (eventSensorHandle e) (scast mSubHalIndex)\<rparr>;
          (eventsOut, numWakeupEvents) = processEvents WAKE_UP mSubHalIndex s es
      in (event # eventsOut,
          if flags (getSensorInfo s (eventSensorHandle event)) AND WAKE_UP \<noteq> 0
          then numWakeupEvents + 1 else numWakeupEvents))"

text \<open>The two \<open>ALOG_ASSERT\<close>s of \<open>postEvents\<close> are compiled out of a release build.\<close>

definition postEvents ::
  "size_t \<Rightarrow> 32 word \<Rightarrow> int64_t \<Rightarrow> nat \<Rightarrow> int32_t \<Rightarrow> Event list \<Rightarrow> bool \<Rightarrow> HalProxy \<Rightarrow> HalProxy"
  where
  "postEvents kMaxSizePendingWriteEventsQueue WAKE_UP now availableToWrite mSubHalIndex events
       wakelockIsLocked s =
     (if events = [] \<or> \<not> areThreadsRunning s then s
      else
        case processEvents WAKE_UP mSubHalIndex s events of
          (processedEvents, numWakeupEvents) \<Rightarrow>
            postEventsToMessageQueue kMaxSizePendingWriteEventsQueue now availableToWrite
              processedEvents numWakeupEvents wakelockIsLocked s)"

section \<open>Routing calls to the sub-HALs\<close>

definition isSubHalIndexValid :: "HalProxy \<Rightarrow> int32_t \<Rightarrow> bool" where
  "isSubHalIndexValid s sensorHandle \<longleftrightarrow>
     unat (extractSubHalIndex sensorHandle) < length (mSubHalList s)"

text \<open>The sub-HAL \<open>mSubHalList[extractSubHalIndex(sensorHandle)]\<close>, as its index.\<close>

definition getSubHalForSensorHandle :: "int32_t \<Rightarrow> nat" where
  "getSubHalForSensorHandle sensorHandle = unat (extractSubHalIndex sensorHandle)"

text \<open>
  The first loop of \<open>setOperationMode\<close> stops at the first sub-HAL that does not answer
  \<open>OK\<close>. It returns the result and the value of \<open>subHalIndex\<close> at the end of the loop.
\<close>

function setOperationMode_loop ::
  "subhal_response \<Rightarrow> OperationMode \<Rightarrow> nat \<Rightarrow> HalProxy \<Rightarrow> Result \<times> nat \<times> HalProxy" where
  "setOperationMode_loop rsp mode subHalIndex s =
     (if subHalIndex < length (mSubHalList s) then
        (case callSubHal rsp subHalIndex (SetOperationMode mode) s of
           (r, s') \<Rightarrow>
             if fst r \<noteq> OK
             then (fst r, subHalIndex,
                   ALOGE (SetOperationModeFailed (getName (mSubHalList s' ! subHalIndex))) s')
             else setOperationMode_loop rsp mode (subHalIndex + 1) s')
      else (OK, subHalIndex, s))"
  by pat_completeness auto
termination
  by (relation "measure (\<lambda>(rsp, mode, subHalIndex, s). length (mSubHalList s) - subHalIndex)")
     (auto simp add: callSubHal_def Let_def)

definition setOperationMode ::
  "subhal_response \<Rightarrow> OperationMode \<Rightarrow> HalProxy \<Rightarrow> Result \<times> HalProxy" where
  "setOperationMode rsp mode s =
     (case setOperationMode_loop rsp mode 0 s of
        (result, subHalIndex, s1) \<Rightarrow>
          if result \<noteq> OK then
            (result,
             fold (\<lambda>i s'. snd (callSubHal rsp i
                                   (SetOperationMode (mCurrentOperationMode s')) s'))
                  [0..<subHalIndex] s1)
          else (result, s1\<lparr>mCurrentOperationMode := mode\<rparr>))"

definition activate ::
  "subhal_response \<Rightarrow> int32_t \<Rightarrow> bool \<Rightarrow> HalProxy \<Rightarrow> Result \<times> HalProxy" where
  "activate rsp sensorHandle enabled s =
     (if \<not> isSubHalIndexValid s sensorHandle then (BAD_VALUE, s)
      else
        case callSubHal rsp (getSubHalForSensorHandle sensorHandle)
               (Activate (clearSubHalIndex sensorHandle) enabled) s of
          (r, s') \<Rightarrow> (fst r, s'))"

definition batch ::
  "subhal_response \<Rightarrow> int32_t \<Rightarrow> int64_t \<Rightarrow> int64_t \<Rightarrow> HalProxy \<Rightarrow> Result \<times> HalProxy" where
  "batch rsp sensorHandle samplingPeriodNs maxReportLatencyNs s =
     (if \<not> isSubHalIndexValid s sensorHandle then (BAD_VALUE, s)
      else
        case callSubHal rsp (getSubHalForSensorHandle sensorHandle)
               (Batch (clearSubHalIndex sensorHandle) samplingPeriodNs maxReportLatencyNs) s of
          (r, s') \<Rightarrow> (fst r, s'))"

definition flush :: "subhal_response \<Rightarrow> int32_t \<Rightarrow> HalProxy \<Rightarrow> Result \<times> HalProxy" where
  "flush rsp sensorHandle s =
     (if \<not> isSubHalIndexValid s sensorHandle then (BAD_VALUE, s)
      else
        case callSubHal rsp (getSubHalForSensorHandle sensorHandle)
               (Flush (clearSubHalIndex sensorHandle)) s of
          (r, s') \<Rightarrow> (fst r, s'))"

definition injectSensorData ::
  "subhal_response \<Rightarrow> Event \<Rightarrow> HalProxy \<Rightarrow> Result \<times> HalProxy" where
  "injectSensorData rsp event s =
     (let (result, s1) =
            (if mCurrentOperationMode s = NORMAL \<and> sensorType event \<noteq> ADDITIONAL_INFO
             then (BAD_VALUE, ALOGE InjectNotAdditionalInfo s)
             else (OK, s))
      in if result = OK then
           (if \<not> isSubHalIndexValid s1 (eventSensorHandle event) then (BAD_VALUE, s1)
            else
              let subHalEvent =
                    event\<lparr>eventSensorHandle := clearSubHalIndex (eventSensorHandle event)\<rparr>
              in case callSubHal rsp (getSubHalForSensorHandle (eventSensorHandle event))
                        (InjectSensorData subHalEvent) s1 of
                   (r, s') \<Rightarrow> (fst r, s'))
         else (result, s1))"

section \<open>The direct channel\<close>

text \<open>
  The result of \<open>registerDirectChannel\<close> and of \<open>configDirectReport\<close> is what they pass
  to \<open>_hidl_cb\<close>: a result code and a channel handle or report token.
\<close>

definition registerDirectChannel ::
  "subhal_response \<Rightarrow> SharedMemInfo \<Rightarrow> HalProxy \<Rightarrow> (Result \<times> int32_t) \<times> HalProxy" where
  "registerDirectChannel rsp mem s =
     (case mDirectChannelSubHal s of
        None \<Rightarrow> ((INVALID_OPERATION, - 1), s)
      | Some d \<Rightarrow> callSubHal rsp d (RegisterDirectChannel mem) s)"

definition unregisterDirectChannel ::
  "subhal_response \<Rightarrow> int32_t \<Rightarrow> HalProxy \<Rightarrow> Result \<times> HalProxy" where
  "unregisterDirectChannel rsp channelHandle s =
     (case mDirectChannelSubHal s of
        None \<Rightarrow> (INVALID_OPERATION, s)
      | Some d \<Rightarrow>
          (case callSubHal rsp d (UnregisterDirectChannel channelHandle) s of
             (r, s') \<Rightarrow> (fst r, s')))"

definition configDirectReport ::
  "subhal_response \<Rightarrow> int32_t \<Rightarrow> int32_t \<Rightarrow> RateLevel \<Rightarrow> HalProxy
     \<Rightarrow> (Result \<times> int32_t) \<times> HalProxy" where
  "configDirectReport rsp sensorHandle channelHandle rate s =
     (case mDirectChannelSubHal s of
        None \<Rightarrow> ((INVALID_OPERATION, - 1), s)
      | Some d \<Rightarrow>
          callSubHal rsp d
            (ConfigDirectReport (clearSubHalIndex sensorHandle) channelHandle rate) s)"

section \<open>The merged catalog\<close>

text \<open>
  \<open>directMask\<close> is \<open>MASK_DIRECT_REPORT | MASK_DIRECT_CHANNEL\<close>, two flag masks of the
  interface. \<open>setDirectChannelFlags\<close> returns the descriptor it was given a pointer to,
  and the proxy. Its argument \<open>subHal\<close> is the pointer \<open>mSubHalList[subHal]\<close>, and
  \<open>subHal != mDirectChannelSubHal\<close> compares the two objects pointed to.
\<close>

definition setDirectChannelFlags ::
  "32 word \<Rightarrow> SensorInfo \<Rightarrow> nat \<Rightarrow> HalProxy \<Rightarrow> SensorInfo \<times> HalProxy" where
  "setDirectChannelFlags directMask sensorInfo subHal s =
     (let sensorSupportsDirectChannel = (flags sensorInfo AND directMask \<noteq> 0)
      in if mDirectChannelSubHal s = None \<and> sensorSupportsDirectChannel
         then (sensorInfo, s\<lparr>mDirectChannelSubHal := Some subHal\<rparr>)
         else
           case mDirectChannelSubHal s of
             None \<Rightarrow> (sensorInfo, s)
           | Some d \<Rightarrow>
               if subHalObject (mSubHalList s ! subHal) \<noteq> subHalObject (mSubHalList s ! d)
               then (sensorInfo\<lparr>flags := flags sensorInfo AND NOT directMask\<rparr>, s)
               else (sensorInfo, s))"

text \<open>The callback that \<open>initializeSensorList\<close> passes to \<open>getSensorsList\<close> of one sub-HAL.\<close>

fun initializeSensorList_cb ::
  "32 word \<Rightarrow> nat \<Rightarrow> SensorInfo list \<Rightarrow> HalProxy \<Rightarrow> HalProxy" where
  "initializeSensorList_cb directMask subHalIndex [] s = s"
| "initializeSensorList_cb directMask subHalIndex (sensor # list) s =
     initializeSensorList_cb directMask subHalIndex list
       (if \<not> subHalIndexIsClear (infoSensorHandle sensor) then ALOGE SubHalSensorHandleNotClear s
        else
          case setDirectChannelFlags directMask
                 (sensor\<lparr>infoSensorHandle :=
                           setSubHalIndex (infoSensorHandle sensor) (of_nat subHalIndex)\<rparr>)
                 subHalIndex s of
            (sensor', s') \<Rightarrow> s'\<lparr>mSensors := (mSensors s')(infoSensorHandle sensor' \<mapsto> sensor')\<rparr>)"

text \<open>
  One iteration of the loop of \<open>initializeSensorList\<close>. \<open>getSensorsList i\<close> is the list
  that sub-HAL \<open>i\<close> hands to the callback, or \<open>None\<close> when the call fails and the callback
  does not run.
\<close>

definition initializeSensorList_iteration ::
  "32 word \<Rightarrow> (nat \<Rightarrow> SensorInfo list option) \<Rightarrow> nat \<Rightarrow> HalProxy \<Rightarrow> HalProxy" where
  "initializeSensorList_iteration directMask getSensorsList subHalIndex s =
     (case getSensorsList subHalIndex of
        Some list \<Rightarrow> initializeSensorList_cb directMask subHalIndex list s
      | None \<Rightarrow> ALOGE (GetSensorsListFailed (getName (mSubHalList s ! subHalIndex))) s)"

definition initializeSensorList ::
  "32 word \<Rightarrow> (nat \<Rightarrow> SensorInfo list option) \<Rightarrow> HalProxy \<Rightarrow> HalProxy" where
  "initializeSensorList directMask getSensorsList s =
     fold (initializeSensorList_iteration directMask getSensorsList)
       [0..<length (mSubHalList s)] s"

text \<open>
  The loop of \<open>onDynamicSensorsConnected\<close>, with the vector \<open>sensors\<close> it builds. The
  \<open>int32_t\<close> index is converted to the \<open>size_t\<close> parameter of \<open>setSubHalIndex\<close>.
\<close>

fun onDynamicSensorsConnected_loop ::
  "SensorInfo list \<Rightarrow> int32_t \<Rightarrow> SensorInfo list \<Rightarrow> HalProxy \<Rightarrow> SensorInfo list \<times> HalProxy"
  where
  "onDynamicSensorsConnected_loop [] subHalIndex sensors s = (sensors, s)"
| "onDynamicSensorsConnected_loop (sensor # added) subHalIndex sensors s =
     (if \<not> subHalIndexIsClear (infoSensorHandle sensor)
      then onDynamicSensorsConnected_loop added subHalIndex sensors
             (ALOGE (DynamicSensorHandleNotClear (sensorName sensor)) s)
      else
        let sensor' = sensor\<lparr>infoSensorHandle :=
                               setSubHalIndex (infoSensorHandle sensor) (scast subHalIndex)\<rparr>
        in onDynamicSensorsConnected_loop added subHalIndex (sensors @ [sensor'])
             (s\<lparr>mDynamicSensors := (mDynamicSensors s)(infoSensorHandle sensor' \<mapsto> sensor')\<rparr>))"

definition onDynamicSensorsConnected ::
  "SensorInfo list \<Rightarrow> int32_t \<Rightarrow> HalProxy \<Rightarrow> HalProxy" where
  "onDynamicSensorsConnected dynamicSensorsAdded subHalIndex s =
     (case onDynamicSensorsConnected_loop dynamicSensorsAdded subHalIndex [] s of
        (sensors, s') \<Rightarrow> s'\<lparr>dynamicSensorsConnected := dynamicSensorsConnected s' @ [sensors]\<rparr>)"

section \<open>Concrete states\<close>

text \<open>
  A proxy over the given sub-HALs with an empty catalog, nothing pending, the wake lock free
  and the background threads running. The examples below start from it.
\<close>

definition initialHalProxy :: "ISensorsSubHal list \<Rightarrow> HalProxy" where
  "initialHalProxy subHals =
     \<lparr>mSubHalList = subHals, subHalCalls = [], mSensors = Map.empty,
      mDynamicSensors = Map.empty, mDirectChannelSubHal = None,
      mCurrentOperationMode = NORMAL, mThreadsRun = True, mWakelockRefCount = 0,
      mWakelockTimeoutStartTime = 0, mWakelockTimeoutResetTime = 0, wakeLockHeld = False,
      mPendingWriteEventsQueue = [], mSizePendingWriteEventsQueue = 0,
      mMostEventsObservedPendingWriteEventsQueue = 0, mEventQueue = [],
      dynamicSensorsConnected = [], errorLog = []\<rparr>"

text \<open>The wake lock held for two wake-up events, last reset at time 10.\<close>

definition wakelockExample :: HalProxy where
  "wakelockExample =
     (initialHalProxy [\<lparr>subHalObject = 0, getName = ''subhal''\<rparr>])
       \<lparr>mWakelockRefCount := 2, wakeLockHeld := True, mWakelockTimeoutResetTime := 10\<rparr>"

text \<open>A proxy over two sub-HALs, and an event with a given handle and type.\<close>

definition twoSubHals :: HalProxy where
  "twoSubHals =
     initialHalProxy [\<lparr>subHalObject = 0, getName = ''subhal0''\<rparr>,
                      \<lparr>subHalObject = 1, getName = ''subhal1''\<rparr>]"

definition exampleEvent :: "int32_t \<Rightarrow> SensorType \<Rightarrow> Event" where
  "exampleEvent h t = \<lparr>timestamp = 0, eventSensorHandle = h, sensorType = t\<rparr>"

text \<open>Four events, told apart by their handles.\<close>

definition fourEvents :: "Event list" where
  "fourEvents = [exampleEvent 1 (OTHER_SENSOR_TYPE 1), exampleEvent 2 (OTHER_SENSOR_TYPE 1),
                 exampleEvent 3 (OTHER_SENSOR_TYPE 1), exampleEvent 4 (OTHER_SENSOR_TYPE 1)]"

text \<open>
  Sub-HALs of which the one at index 1 refuses \<open>DATA_INJECTION\<close> and every other call
  is answered \<open>OK\<close>.
\<close>

definition rejectAtSubHal1 :: subhal_response where
  "rejectAtSubHal1 tr =
     (if tr \<noteq> [] \<and> last tr = (1, SetOperationMode DATA_INJECTION) then (BAD_VALUE, 0)
      else (OK, 0))"

text \<open>A descriptor with a given handle and name, and no flags.\<close>

definition exampleSensor :: "int32_t \<Rightarrow> string \<Rightarrow> SensorInfo" where
  "exampleSensor h n = \<lparr>infoSensorHandle = h, sensorName = n, flags = 0\<rparr>"

text \<open>
  What two sub-HALs enumerate: both have a sensor with local handle 1, and the second also
  reports a handle with namespace bits set.
\<close>

definition twoEnumerations :: "nat \<Rightarrow> SensorInfo list option" where
  "twoEnumerations i =
     (if i = 0 then Some [exampleSensor 1 ''accel'']
      else Some [exampleSensor 1 ''gyro'', exampleSensor 0x02000007 ''bad''])"

section \<open>Handle namespace: stamping and extracting\<close>

lemma kSensorHandleSubHalIndexMask_eq: "kSensorHandleSubHalIndexMask = NOT (mask 24)"
  unfolding kSensorHandleSubHalIndexMask_def
  by (simp add: mask_eq_exp_minus_1)

lemma bit_kSensorHandleSubHalIndexMask:
  "bit kSensorHandleSubHalIndexMask n \<longleftrightarrow> 24 \<le> n \<and> n < 32"
  unfolding kSensorHandleSubHalIndexMask_eq by (auto simp add: bit_simps)

lemma subHalIndexIsClear_bit:
  assumes "subHalIndexIsClear h" and "24 \<le> n"
  shows "\<not> bit h n"
proof
  assume b: "bit h n"
  then have "n < 32" by (auto dest: bit_imp_le_length)
  with assms b have "bit (h AND kSensorHandleSubHalIndexMask) n"
    by (simp add: bit_and_iff bit_kSensorHandleSubHalIndexMask)
  with assms show False by (simp add: subHalIndexIsClear_def)
qed

lemma index_below_128_bit:
  assumes "(i :: size_t) < 128" and "7 \<le> n"
  shows "\<not> bit i n"
proof -
  from assms have "i < 2 ^ 7" by simp
  then have "i AND mask 7 = i" by (rule less_mask_eq)
  then have "bit i n = bit (i AND mask 7) n" by simp
  also have "\<dots> = (bit i n \<and> n < 7)" by (auto simp add: bit_simps dest: bit_imp_le_length)
  finally show ?thesis using assms by simp
qed

text \<open>Clearing the namespace bits undoes the stamp, whatever the index.\<close>

lemma clearSubHalIndex_setSubHalIndex:
  "subHalIndexIsClear h \<Longrightarrow> clearSubHalIndex (setSubHalIndex h i) = h"
  unfolding clearSubHalIndex_def setSubHalIndex_def kBitsAfterSubHalIndex_def
  by (rule bit_word_eqI)
     (auto simp add: bit_simps bit_kSensorHandleSubHalIndexMask dest: subHalIndexIsClear_bit)

text \<open>The index comes back from the stamped handle as long as it leaves the sign bit clear.\<close>

lemma extractSubHalIndex_setSubHalIndex_below_128:
  "subHalIndexIsClear h \<Longrightarrow> i < 128 \<Longrightarrow> extractSubHalIndex (setSubHalIndex h i) = i"
  unfolding extractSubHalIndex_def setSubHalIndex_def kBitsAfterSubHalIndex_def
  apply (rule bit_word_eqI)
  apply (auto simp add: bit_simps dest: subHalIndexIsClear_bit index_below_128_bit)
  using subHalIndexIsClear_bit[of h 31] apply simp
  using index_below_128_bit[of i] apply force
  using subHalIndexIsClear_bit[of h] apply force
  done

text \<open>
  C4: for every backend index of the 8-bit namespace and every unnamespaced local handle,
  the index extracted from the stamped handle is that index, and clearing the namespace bits
  of the stamped handle gives the local handle back. The code does not do the first for an
  index from 128 on: the stamp sets the sign bit of the \<open>int32_t\<close> handle, the arithmetic
  shift of \<open>extractSubHalIndex\<close> fills with ones and the conversion to \<open>size_t\<close> extends
  the sign. For local handle 1 and index 128 the extracted index is \<open>2^64 - 128\<close>.
\<close>

theorem extractSubHalIndex_setSubHalIndex_128:
  "subHalIndexIsClear 1 \<and> (128 :: size_t) < 256
   \<and> extractSubHalIndex (setSubHalIndex 1 128) = 0xFFFFFFFFFFFFFF80
   \<and> extractSubHalIndex (setSubHalIndex 1 128) \<noteq> 128"
  by (simp add: extractSubHalIndex_def setSubHalIndex_def kBitsAfterSubHalIndex_def
      subHalIndexIsClear_def kSensorHandleSubHalIndexMask_def)

section \<open>The shared wake lock: release and reset\<close>

lemma resetSharedWakelock_stopped:
  "\<not> mThreadsRun s \<Longrightarrow> resetSharedWakelock now s = s\<lparr>mWakelockTimeoutResetTime := now\<rparr>"
  by (simp add: resetSharedWakelock_def decrementRefCountAndMaybeReleaseWakelock_def)

lemma resetSharedWakelock_running:
  "mThreadsRun s \<Longrightarrow>
   resetSharedWakelock now s =
     s\<lparr>mWakelockRefCount := 0,
       wakeLockHeld := (wakeLockHeld s \<and> mWakelockRefCount s = 0),
       mWakelockTimeoutResetTime := now\<rparr>"
  by (simp add: resetSharedWakelock_def decrementRefCountAndMaybeReleaseWakelock_def Let_def)

text \<open>
  C2: every call of \<open>resetSharedWakelock\<close>, in particular the one \<open>initialize\<close> makes
  after \<open>stopThreads\<close>, drives the reference count to zero, releases the wake lock if it
  was held and records the reset time. The code does the first two only while the threads
  run: \<open>initialize\<close> calls \<open>stopThreads()\<close> and then \<open>resetSharedWakelock()\<close>, and the
  decrement returns at once when the run flag is cleared. With a count of 2 and the lock
  held, the count and the lock stay as they are and only the reset time is recorded.
\<close>

theorem resetSharedWakelock_after_stopThreads:
  "mWakelockRefCount (resetSharedWakelock 100 (stopThreads wakelockExample)) = 2
   \<and> wakeLockHeld (resetSharedWakelock 100 (stopThreads wakelockExample))
   \<and> mWakelockTimeoutResetTime (resetSharedWakelock 100 (stopThreads wakelockExample)) = 100"
  by (simp add: resetSharedWakelock_def decrementRefCountAndMaybeReleaseWakelock_def
      stopThreads_def wakelockExample_def initialHalProxy_def)

text \<open>
  C3, as the code has it: while the background threads run, a release with an explicit
  \<open>timeoutStart\<close> (not the default \<open>-1\<close>) that precedes the last reset time has no effect;
  a release with the default \<open>-1\<close> or with a \<open>timeoutStart\<close> not before the last reset
  subtracts \<open>min(refCount, delta)\<close> and releases the wake lock exactly when that takes a
  positive count to zero.
\<close>

theorem decrementRefCountAndMaybeReleaseWakelock_running:
  assumes "mThreadsRun s"
  shows "(timeoutStart \<noteq> - 1 \<and> timeoutStart < mWakelockTimeoutResetTime s \<longrightarrow>
            decrementRefCountAndMaybeReleaseWakelock delta timeoutStart s = s)
       \<and> (timeoutStart = - 1 \<or> mWakelockTimeoutResetTime s \<le> timeoutStart \<longrightarrow>
            decrementRefCountAndMaybeReleaseWakelock delta timeoutStart s =
              s\<lparr>mWakelockRefCount := mWakelockRefCount s - min (mWakelockRefCount s) delta,
                wakeLockHeld := (wakeLockHeld s \<and>
                   \<not> (0 < mWakelockRefCount s \<and> mWakelockRefCount s \<le> delta))\<rparr>)"
  using assms
  by (auto simp add: decrementRefCountAndMaybeReleaseWakelock_def Let_def min_def
      word_greater_zero_iff)

theorem decrementRefCountAndMaybeReleaseWakelock_running_witness:
  "mThreadsRun wakelockExample
   \<and> (5 :: int) \<noteq> - 1 \<and> 5 < mWakelockTimeoutResetTime wakelockExample
   \<and> decrementRefCountAndMaybeReleaseWakelock 1 5 wakelockExample = wakelockExample
   \<and> mWakelockTimeoutResetTime wakelockExample \<le> 10
   \<and> mWakelockRefCount (decrementRefCountAndMaybeReleaseWakelock 2 10 wakelockExample) = 0
   \<and> \<not> wakeLockHeld (decrementRefCountAndMaybeReleaseWakelock 2 10 wakelockExample)"
proof -
  have r: "mThreadsRun wakelockExample"
    by (simp add: wakelockExample_def initialHalProxy_def)
  have t: "mWakelockTimeoutResetTime wakelockExample = 10"
    and c: "mWakelockRefCount wakelockExample = 2"
    by (simp_all add: wakelockExample_def initialHalProxy_def)
  from decrementRefCountAndMaybeReleaseWakelock_running [OF r, of 5 1]
    decrementRefCountAndMaybeReleaseWakelock_running [OF r, of 10 2] r t c
  show ?thesis by simp
qed

text \<open>
  C3 as stated fails twice. After \<open>stopThreads\<close> a release that is not stale subtracts
  nothing: the count stays 2 where the claim has 1. And the default \<open>-1\<close>, which
  precedes the reset time 10, is not taken as a stale timestamp: the count goes from 2 to 1.
\<close>

theorem decrementRefCountAndMaybeReleaseWakelock_counterexample:
  "(\<not> 10 < mWakelockTimeoutResetTime (stopThreads wakelockExample)
      \<and> mWakelockRefCount
            (decrementRefCountAndMaybeReleaseWakelock 1 10 (stopThreads wakelockExample))
          \<noteq> mWakelockRefCount (stopThreads wakelockExample)
              - min (mWakelockRefCount (stopThreads wakelockExample)) 1)
   \<and> (- 1 < mWakelockTimeoutResetTime wakelockExample
      \<and> mWakelockRefCount (decrementRefCountAndMaybeReleaseWakelock 1 (- 1) wakelockExample)
          \<noteq> mWakelockRefCount wakelockExample)"
  by (simp add: decrementRefCountAndMaybeReleaseWakelock_def stopThreads_def
      wakelockExample_def initialHalProxy_def)

section \<open>Routing by handle\<close>

text \<open>
  C7, as the code has it: for a handle whose extracted index is not below the number of
  sub-HALs, \<open>activate\<close>, \<open>batch\<close>, \<open>flush\<close> and \<open>injectSensorData\<close> return
  \<open>BAD_VALUE\<close> and call no sub-HAL. For a valid handle \<open>activate\<close>, \<open>batch\<close> and
  \<open>flush\<close> make one call, on the sub-HAL of that index, with the namespace bits cleared,
  and return its result; \<open>injectSensorData\<close> does so unless the operation mode is
  \<open>NORMAL\<close> and the event is not of type \<open>ADDITIONAL_INFO\<close>, and in that case it
  returns \<open>BAD_VALUE\<close> and calls no sub-HAL.
\<close>

theorem sensor_calls_routing:
  "(\<not> isSubHalIndexValid s sensorHandle \<longrightarrow>
      activate rsp sensorHandle enabled s = (BAD_VALUE, s)
      \<and> batch rsp sensorHandle samplingPeriodNs maxReportLatencyNs s = (BAD_VALUE, s)
      \<and> flush rsp sensorHandle s = (BAD_VALUE, s))
   \<and> (\<not> isSubHalIndexValid s (eventSensorHandle event) \<longrightarrow>
      fst (injectSensorData rsp event s) = BAD_VALUE
      \<and> subHalCalls (snd (injectSensorData rsp event s)) = subHalCalls s)
   \<and> (isSubHalIndexValid s sensorHandle \<longrightarrow>
      activate rsp sensorHandle enabled s =
        (fst (rsp (subHalCalls s @ [(unat (extractSubHalIndex sensorHandle),
                                     Activate (clearSubHalIndex sensorHandle) enabled)])),
         s\<lparr>subHalCalls := subHalCalls s @ [(unat (extractSubHalIndex sensorHandle),
                                     Activate (clearSubHalIndex sensorHandle) enabled)]\<rparr>)
      \<and> batch rsp sensorHandle samplingPeriodNs maxReportLatencyNs s =
        (fst (rsp (subHalCalls s @ [(unat (extractSubHalIndex sensorHandle),
                     Batch (clearSubHalIndex sensorHandle) samplingPeriodNs
                       maxReportLatencyNs)])),
         s\<lparr>subHalCalls := subHalCalls s @ [(unat (extractSubHalIndex sensorHandle),
                     Batch (clearSubHalIndex sensorHandle) samplingPeriodNs
                       maxReportLatencyNs)]\<rparr>)
      \<and> flush rsp sensorHandle s =
        (fst (rsp (subHalCalls s @ [(unat (extractSubHalIndex sensorHandle),
                                     Flush (clearSubHalIndex sensorHandle))])),
         s\<lparr>subHalCalls := subHalCalls s @ [(unat (extractSubHalIndex sensorHandle),
                                     Flush (clearSubHalIndex sensorHandle))]\<rparr>))
   \<and> (isSubHalIndexValid s (eventSensorHandle event)
        \<and> (mCurrentOperationMode s \<noteq> NORMAL \<or> sensorType event = ADDITIONAL_INFO) \<longrightarrow>
      injectSensorData rsp event s =
        (fst (rsp (subHalCalls s @ [(unat (extractSubHalIndex (eventSensorHandle event)),
                     InjectSensorData
                       (event\<lparr>eventSensorHandle :=
                                 clearSubHalIndex (eventSensorHandle event)\<rparr>))])),
         s\<lparr>subHalCalls := subHalCalls s @
                   [(unat (extractSubHalIndex (eventSensorHandle event)),
                     InjectSensorData
                       (event\<lparr>eventSensorHandle :=
                                 clearSubHalIndex (eventSensorHandle event)\<rparr>))]\<rparr>))
   \<and> (mCurrentOperationMode s = NORMAL \<and> sensorType event \<noteq> ADDITIONAL_INFO \<longrightarrow>
      injectSensorData rsp event s = (BAD_VALUE, ALOGE InjectNotAdditionalInfo s))"
  by (auto simp add: activate_def batch_def flush_def injectSensorData_def callSubHal_def
      getSubHalForSensorHandle_def isSubHalIndexValid_def ALOGE_def Let_def)

lemma twoSubHals_valid_handle:
  "isSubHalIndexValid twoSubHals 0x01000005"
  "unat (extractSubHalIndex 0x01000005) = 1"
  "clearSubHalIndex 0x01000005 = 5"
  by (simp_all add: isSubHalIndexValid_def extractSubHalIndex_def kBitsAfterSubHalIndex_def
      clearSubHalIndex_def kSensorHandleSubHalIndexMask_def twoSubHals_def initialHalProxy_def)

lemma twoSubHals_invalid_handle:
  "\<not> isSubHalIndexValid twoSubHals 0x02000005"
  by (simp add: isSubHalIndexValid_def extractSubHalIndex_def kBitsAfterSubHalIndex_def
      twoSubHals_def initialHalProxy_def)

lemma twoSubHals_fields:
  "subHalCalls twoSubHals = []"
  "mCurrentOperationMode twoSubHals = NORMAL"
  "mDirectChannelSubHal twoSubHals = None"
  by (simp_all add: twoSubHals_def initialHalProxy_def)

theorem sensor_calls_routing_witness:
  "\<not> isSubHalIndexValid twoSubHals 0x02000005
   \<and> activate (\<lambda>tr. (OK, 0)) 0x02000005 True twoSubHals = (BAD_VALUE, twoSubHals)
   \<and> batch (\<lambda>tr. (OK, 0)) 0x02000005 20 30 twoSubHals = (BAD_VALUE, twoSubHals)
   \<and> flush (\<lambda>tr. (OK, 0)) 0x02000005 twoSubHals = (BAD_VALUE, twoSubHals)
   \<and> fst (injectSensorData (\<lambda>tr. (OK, 0)) (exampleEvent 0x02000005 ADDITIONAL_INFO) twoSubHals)
       = BAD_VALUE
   \<and> subHalCalls
        (snd (injectSensorData (\<lambda>tr. (OK, 0)) (exampleEvent 0x02000005 ADDITIONAL_INFO)
                twoSubHals)) = []
   \<and> isSubHalIndexValid twoSubHals 0x01000005
   \<and> activate (\<lambda>tr. (OK, 0)) 0x01000005 True twoSubHals
       = (OK, twoSubHals\<lparr>subHalCalls := [(1, Activate 5 True)]\<rparr>)
   \<and> batch (\<lambda>tr. (OK, 0)) 0x01000005 20 30 twoSubHals
       = (OK, twoSubHals\<lparr>subHalCalls := [(1, Batch 5 20 30)]\<rparr>)
   \<and> flush (\<lambda>tr. (OK, 0)) 0x01000005 twoSubHals
       = (OK, twoSubHals\<lparr>subHalCalls := [(1, Flush 5)]\<rparr>)
   \<and> injectSensorData (\<lambda>tr. (OK, 0)) (exampleEvent 0x01000005 ADDITIONAL_INFO) twoSubHals
       = (OK, twoSubHals\<lparr>subHalCalls :=
                 [(1, InjectSensorData (exampleEvent 5 ADDITIONAL_INFO))]\<rparr>)
   \<and> injectSensorData (\<lambda>tr. (OK, 0)) (exampleEvent 0x01000005 (OTHER_SENSOR_TYPE 1))
        twoSubHals
       = (BAD_VALUE, ALOGE InjectNotAdditionalInfo twoSubHals)"
proof -
  note a = sensor_calls_routing [of twoSubHals "0x02000005" "\<lambda>tr. (OK, 0)" True 20 30
      "exampleEvent 0x02000005 ADDITIONAL_INFO"]
  note b = sensor_calls_routing [of twoSubHals "0x01000005" "\<lambda>tr. (OK, 0)" True 20 30
      "exampleEvent 0x01000005 ADDITIONAL_INFO"]
  note c = sensor_calls_routing [of twoSubHals "0x01000005" "\<lambda>tr. (OK, 0)" True 20 30
      "exampleEvent 0x01000005 (OTHER_SENSOR_TYPE 1)"]
  from a b c show ?thesis
    by (simp add: twoSubHals_valid_handle twoSubHals_invalid_handle twoSubHals_fields
        exampleEvent_def)
qed

text \<open>
  C7 as stated fails for \<open>injectSensorData\<close>: in mode \<open>NORMAL\<close> an event of another
  type than \<open>ADDITIONAL_INFO\<close> with a valid handle is not forwarded.
\<close>

theorem injectSensorData_counterexample:
  "isSubHalIndexValid twoSubHals
     (eventSensorHandle (exampleEvent 0x01000005 (OTHER_SENSOR_TYPE 1)))
   \<and> fst (injectSensorData (\<lambda>tr. (OK, 0)) (exampleEvent 0x01000005 (OTHER_SENSOR_TYPE 1))
            twoSubHals) = BAD_VALUE
   \<and> subHalCalls
        (snd (injectSensorData (\<lambda>tr. (OK, 0)) (exampleEvent 0x01000005 (OTHER_SENSOR_TYPE 1))
                twoSubHals)) = []"
  by (simp add: injectSensorData_def isSubHalIndexValid_def extractSubHalIndex_def
      kBitsAfterSubHalIndex_def twoSubHals_def initialHalProxy_def ALOGE_def exampleEvent_def)

section \<open>Routing the direct channel\<close>

text \<open>
  C8: with no designated direct-channel sub-HAL, \<open>registerDirectChannel\<close>,
  \<open>unregisterDirectChannel\<close> and \<open>configDirectReport\<close> answer \<open>INVALID_OPERATION\<close>
  and call no sub-HAL; with one, each makes exactly one call, on that sub-HAL, and passes
  its answer on.
\<close>

theorem directChannel_routing:
  "(mDirectChannelSubHal s = None \<longrightarrow>
      registerDirectChannel rsp mem s = ((INVALID_OPERATION, - 1), s)
      \<and> unregisterDirectChannel rsp channelHandle s = (INVALID_OPERATION, s)
      \<and> configDirectReport rsp sensorHandle channelHandle rate s = ((INVALID_OPERATION, - 1), s))
   \<and> (mDirectChannelSubHal s = Some d \<longrightarrow>
      registerDirectChannel rsp mem s =
        (rsp (subHalCalls s @ [(d, RegisterDirectChannel mem)]),
         s\<lparr>subHalCalls := subHalCalls s @ [(d, RegisterDirectChannel mem)]\<rparr>)
      \<and> unregisterDirectChannel rsp channelHandle s =
        (fst (rsp (subHalCalls s @ [(d, UnregisterDirectChannel channelHandle)])),
         s\<lparr>subHalCalls := subHalCalls s @ [(d, UnregisterDirectChannel channelHandle)]\<rparr>)
      \<and> configDirectReport rsp sensorHandle channelHandle rate s =
        (rsp (subHalCalls s @
                [(d, ConfigDirectReport (clearSubHalIndex sensorHandle) channelHandle rate)]),
         s\<lparr>subHalCalls := subHalCalls s @
                [(d, ConfigDirectReport (clearSubHalIndex sensorHandle) channelHandle rate)]\<rparr>))"
  by (simp add: registerDirectChannel_def unregisterDirectChannel_def configDirectReport_def
      callSubHal_def Let_def)

theorem directChannel_routing_witness:
  "mDirectChannelSubHal twoSubHals = None
   \<and> registerDirectChannel (\<lambda>tr. (OK, 7)) 3 twoSubHals = ((INVALID_OPERATION, - 1), twoSubHals)
   \<and> unregisterDirectChannel (\<lambda>tr. (OK, 7)) 7 twoSubHals = (INVALID_OPERATION, twoSubHals)
   \<and> configDirectReport (\<lambda>tr. (OK, 7)) 0x01000005 7 RATE_FAST twoSubHals
       = ((INVALID_OPERATION, - 1), twoSubHals)
   \<and> mDirectChannelSubHal (twoSubHals\<lparr>mDirectChannelSubHal := Some 1\<rparr>) = Some 1
   \<and> fst (registerDirectChannel (\<lambda>tr. (OK, 7)) 3 (twoSubHals\<lparr>mDirectChannelSubHal := Some 1\<rparr>))
       = (OK, 7)
   \<and> subHalCalls (snd (registerDirectChannel (\<lambda>tr. (OK, 7)) 3
                          (twoSubHals\<lparr>mDirectChannelSubHal := Some 1\<rparr>)))
       = [(1, RegisterDirectChannel 3)]
   \<and> subHalCalls (snd (unregisterDirectChannel (\<lambda>tr. (OK, 7)) 7
                          (twoSubHals\<lparr>mDirectChannelSubHal := Some 1\<rparr>)))
       = [(1, UnregisterDirectChannel 7)]
   \<and> subHalCalls (snd (configDirectReport (\<lambda>tr. (OK, 7)) 0x01000005 7 RATE_FAST
                          (twoSubHals\<lparr>mDirectChannelSubHal := Some 1\<rparr>)))
       = [(1, ConfigDirectReport 5 7 RATE_FAST)]"
proof -
  have d: "mDirectChannelSubHal (twoSubHals\<lparr>mDirectChannelSubHal := Some 1\<rparr>) = Some 1"
    by simp
  from directChannel_routing [of twoSubHals "\<lambda>tr. (OK, 7)" 3 7 "0x01000005" RATE_FAST 1]
    directChannel_routing [of "twoSubHals\<lparr>mDirectChannelSubHal := Some 1\<rparr>" "\<lambda>tr. (OK, 7)"
       3 7 "0x01000005" RATE_FAST 1]
    d
  show ?thesis by (simp add: twoSubHals_fields twoSubHals_valid_handle)
qed

section \<open>The callback with no events\<close>

text \<open>
  C10: \<open>HalProxyCallback::postEvents\<close> with an empty vector of events returns at once:
  the proxy, and with it the pending queue, its size counter, the wake-lock count and the
  event queue, is as before.
\<close>

theorem postEvents_empty:
  "postEvents kMaxSizePendingWriteEventsQueue WAKE_UP now availableToWrite mSubHalIndex []
     wakelockIsLocked s = s"
  by (simp add: postEvents_def)

theorem postEvents_empty_witness:
  "postEvents 100000 1 7 16 0 [] True wakelockExample = wakelockExample"
  by (rule postEvents_empty)

section \<open>Posting events: the bound on the pending queue\<close>

lemma incr_fields:
  "mPendingWriteEventsQueue (snd (incrementRefCountAndMaybeAcquireWakelock now d s)) = mPendingWriteEventsQueue s"
  "mSizePendingWriteEventsQueue (snd (incrementRefCountAndMaybeAcquireWakelock now d s)) = mSizePendingWriteEventsQueue s"
  "mMostEventsObservedPendingWriteEventsQueue (snd (incrementRefCountAndMaybeAcquireWakelock now d s)) = mMostEventsObservedPendingWriteEventsQueue s"
  "mEventQueue (snd (incrementRefCountAndMaybeAcquireWakelock now d s)) = mEventQueue s"
  "mThreadsRun (snd (incrementRefCountAndMaybeAcquireWakelock now d s)) = mThreadsRun s"
  by (simp_all add: incrementRefCountAndMaybeAcquireWakelock_def Let_def)

lemma twoSubHals_queue_fields:
  "mPendingWriteEventsQueue twoSubHals = []"
  "mSizePendingWriteEventsQueue twoSubHals = 0"
  "mMostEventsObservedPendingWriteEventsQueue twoSubHals = 0"
  "mEventQueue twoSubHals = []"
  "mThreadsRun twoSubHals"
  "mWakelockRefCount twoSubHals = 0"
  by (simp_all add: twoSubHals_def initialHalProxy_def)

text \<open>
  C1, as the code has it: when the events left after the immediate write would take the
  count of buffered events past \<open>kMaxSizePendingWriteEventsQueue\<close>, none of them is
  buffered. The pending queue, its size counter and its high-water mark are as before, and
  the event queue has received the first \<open>numToWrite\<close> events only.
\<close>

theorem postEventsToMessageQueue_over_bound:
  assumes "numToWrite =
             (if mPendingWriteEventsQueue s = [] then min (length events) availableToWrite else 0)"
    and "\<not> mSizePendingWriteEventsQueue s + of_nat (length events - numToWrite)
             \<le> kMaxSizePendingWriteEventsQueue"
  shows "mPendingWriteEventsQueue
           (postEventsToMessageQueue kMaxSizePendingWriteEventsQueue now availableToWrite events
              numWakeupEvents wakelockIsLocked s) = mPendingWriteEventsQueue s
       \<and> mSizePendingWriteEventsQueue
           (postEventsToMessageQueue kMaxSizePendingWriteEventsQueue now availableToWrite events
              numWakeupEvents wakelockIsLocked s) = mSizePendingWriteEventsQueue s
       \<and> mMostEventsObservedPendingWriteEventsQueue
           (postEventsToMessageQueue kMaxSizePendingWriteEventsQueue now availableToWrite events
              numWakeupEvents wakelockIsLocked s) = mMostEventsObservedPendingWriteEventsQueue s
       \<and> mEventQueue
           (postEventsToMessageQueue kMaxSizePendingWriteEventsQueue now availableToWrite events
              numWakeupEvents wakelockIsLocked s) = mEventQueue s @ take numToWrite events"
  using assms
  by (auto simp add: postEventsToMessageQueue_def eventQueueWrite_def incr_fields Let_def
      split: prod.splits if_splits)

theorem postEventsToMessageQueue_over_bound_witness:
  "\<not> mSizePendingWriteEventsQueue twoSubHals + of_nat (length fourEvents - 1) \<le> (2 :: size_t)
   \<and> mPendingWriteEventsQueue (postEventsToMessageQueue 2 7 1 fourEvents 4 True twoSubHals) = []
   \<and> mSizePendingWriteEventsQueue (postEventsToMessageQueue 2 7 1 fourEvents 4 True twoSubHals) = 0
   \<and> mMostEventsObservedPendingWriteEventsQueue
        (postEventsToMessageQueue 2 7 1 fourEvents 4 True twoSubHals) = 0
   \<and> mEventQueue (postEventsToMessageQueue 2 7 1 fourEvents 4 True twoSubHals)
        = [exampleEvent 1 (OTHER_SENSOR_TYPE 1)]"
proof -
  have n: "(1 :: nat) =
      (if mPendingWriteEventsQueue twoSubHals = [] then min (length fourEvents) 1 else 0)"
    by (simp add: twoSubHals_queue_fields fourEvents_def)
  have b: "\<not> mSizePendingWriteEventsQueue twoSubHals + of_nat (length fourEvents - 1)
             \<le> (2 :: size_t)"
    by (simp add: twoSubHals_queue_fields fourEvents_def)
  from postEventsToMessageQueue_over_bound [OF n b, of 7 4 True] b
  show ?thesis by (simp add: twoSubHals_queue_fields fourEvents_def)
qed

text \<open>
  C1 as stated fails: with a bound of 2, an empty pending queue and one free slot, a post of
  four wake-up events writes the first and then has three left. The claim buffers the next
  two and gives the wake lock back for the one dropped; the code buffers none and leaves the
  count at 4.
\<close>

theorem postEventsToMessageQueue_counterexample:
  "\<not> mSizePendingWriteEventsQueue twoSubHals + of_nat (length fourEvents - 1) \<le> (2 :: size_t)
   \<and> map fst (mPendingWriteEventsQueue (postEventsToMessageQueue 2 7 1 fourEvents 4 True twoSubHals))
        \<noteq> [take 2 (drop 1 fourEvents)]
   \<and> mSizePendingWriteEventsQueue (postEventsToMessageQueue 2 7 1 fourEvents 4 True twoSubHals)
        \<noteq> 2
   \<and> mWakelockRefCount (postEventsToMessageQueue 2 7 1 fourEvents 4 True twoSubHals) = 4
   \<and> mWakelockRefCount (postEventsToMessageQueue 2 7 1 fourEvents 4 True twoSubHals) \<noteq> 4 - 1"
  by (simp add: postEventsToMessageQueue_def eventQueueWrite_def
      incrementRefCountAndMaybeAcquireWakelock_def Let_def twoSubHals_def initialHalProxy_def
      fourEvents_def)

section \<open>Posting events: the remainder and its drain\<close>

lemma handlePendingWrites_empty:
  "mPendingWriteEventsQueue s = [] \<Longrightarrow> handlePendingWrites WAKE_UP eventQueueSize oks s = s"
  by (induction oks) (simp_all add: handlePendingWrites_iteration_def)

lemma handlePendingWrites_iteration_ok:
  assumes "mThreadsRun s" and "mPendingWriteEventsQueue s = (evs, nw) # rest"
  shows "handlePendingWrites_iteration WAKE_UP eventQueueSize True s =
           s\<lparr>mEventQueue := mEventQueue s @ take eventQueueSize evs,
             mSizePendingWriteEventsQueue :=
               mSizePendingWriteEventsQueue s - of_nat (min (length evs) eventQueueSize),
             mPendingWriteEventsQueue :=
               (if eventQueueSize < length evs then (drop eventQueueSize evs, nw) # rest
                else rest)\<rparr>"
  using assms
  by (simp add: handlePendingWrites_iteration_def Let_def min_def)

lemma handlePendingWrites_drain:
  assumes "0 < eventQueueSize"
  shows "mThreadsRun s \<Longrightarrow> evs \<noteq> [] \<Longrightarrow> length evs \<le> n \<Longrightarrow>
         mPendingWriteEventsQueue s = [(evs, nw)] \<Longrightarrow>
         handlePendingWrites WAKE_UP eventQueueSize (replicate n True) s =
           s\<lparr>mEventQueue := mEventQueue s @ evs,
             mSizePendingWriteEventsQueue :=
               mSizePendingWriteEventsQueue s - of_nat (length evs),
             mPendingWriteEventsQueue := []\<rparr>"
proof (induction n arbitrary: s evs)
  case 0
  then show ?case by simp
next
  case (Suc n)
  let ?s' = "handlePendingWrites_iteration WAKE_UP eventQueueSize True s"
  have step: "?s' =
           s\<lparr>mEventQueue := mEventQueue s @ take eventQueueSize evs,
             mSizePendingWriteEventsQueue :=
               mSizePendingWriteEventsQueue s - of_nat (min (length evs) eventQueueSize),
             mPendingWriteEventsQueue :=
               (if eventQueueSize < length evs then [(drop eventQueueSize evs, nw)]
                else [])\<rparr>"
    using handlePendingWrites_iteration_ok [OF Suc.prems(1) Suc.prems(4)] by simp
  show ?case
  proof (cases "eventQueueSize < length evs")
    case True
    have run: "mThreadsRun ?s'" using step Suc.prems(1) by simp
    have ne: "drop eventQueueSize evs \<noteq> []" using True by simp
    have len: "length (drop eventQueueSize evs) \<le> n"
      using True Suc.prems(3) assms by simp
    have q: "mPendingWriteEventsQueue ?s' = [(drop eventQueueSize evs, nw)]"
      using step True by simp
    have sz: "(of_nat eventQueueSize :: size_t) + of_nat (length evs - eventQueueSize)
                = of_nat (length evs)"
      using True by (simp flip: of_nat_add)
    have "handlePendingWrites WAKE_UP eventQueueSize (replicate (Suc n) True) s =
          handlePendingWrites WAKE_UP eventQueueSize (replicate n True) ?s'"
      by simp
    also have "\<dots> = ?s'\<lparr>mEventQueue := mEventQueue ?s' @ drop eventQueueSize evs,
             mSizePendingWriteEventsQueue :=
               mSizePendingWriteEventsQueue ?s' - of_nat (length (drop eventQueueSize evs)),
             mPendingWriteEventsQueue := []\<rparr>"
      by (rule Suc.IH [OF run ne len q])
    also have "\<dots> = s\<lparr>mEventQueue := mEventQueue s @ evs,
             mSizePendingWriteEventsQueue :=
               mSizePendingWriteEventsQueue s - of_nat (length evs),
             mPendingWriteEventsQueue := []\<rparr>"
      using True sz by (simp add: step min_def diff_diff_eq)
    finally show ?thesis .
  next
    case False
    then have "?s' = s\<lparr>mEventQueue := mEventQueue s @ evs,
             mSizePendingWriteEventsQueue :=
               mSizePendingWriteEventsQueue s - of_nat (length evs),
             mPendingWriteEventsQueue := []\<rparr>"
      using step by (simp add: min_def)
    then show ?thesis
      by (simp add: handlePendingWrites_empty)
  qed
qed

lemma postEventsToMessageQueue_partial:
  assumes "mPendingWriteEventsQueue s = []"
    and "availableToWrite < length events"
    and "mSizePendingWriteEventsQueue s + of_nat (length events - availableToWrite)
           \<le> kMaxSizePendingWriteEventsQueue"
  shows "mEventQueue
           (postEventsToMessageQueue kMaxSizePendingWriteEventsQueue now availableToWrite events
              numWakeupEvents wakelockIsLocked s) = mEventQueue s @ take availableToWrite events"
    and "mPendingWriteEventsQueue
           (postEventsToMessageQueue kMaxSizePendingWriteEventsQueue now availableToWrite events
              numWakeupEvents wakelockIsLocked s)
           = [(drop availableToWrite events, numWakeupEvents)]"
    and "mSizePendingWriteEventsQueue
           (postEventsToMessageQueue kMaxSizePendingWriteEventsQueue now availableToWrite events
              numWakeupEvents wakelockIsLocked s)
           = mSizePendingWriteEventsQueue s + of_nat (length events - availableToWrite)"
    and "mThreadsRun
           (postEventsToMessageQueue kMaxSizePendingWriteEventsQueue now availableToWrite events
              numWakeupEvents wakelockIsLocked s) = mThreadsRun s"
  using assms
  by (auto simp add: postEventsToMessageQueue_def eventQueueWrite_def incr_fields Let_def
      min_def split: prod.splits if_splits)

text \<open>
  C5: a post of \<open>N\<close> events with no batch pending, the count within the bound and
  \<open>K < N\<close> free slots in the event queue writes the first \<open>K\<close> events at once and
  buffers the other \<open>N - K\<close> as one batch; the pending-writes thread, its blocking writes
  succeeding, then writes exactly that batch, in order, and empties the queue. \<open>N - K\<close>
  iterations are enough, whatever the (positive) size of the event queue.
\<close>

theorem post_then_drain:
  assumes "mPendingWriteEventsQueue s = []"
    and "availableToWrite < length events"
    and "mSizePendingWriteEventsQueue s + of_nat (length events - availableToWrite)
           \<le> kMaxSizePendingWriteEventsQueue"
    and "mThreadsRun s"
    and "0 < eventQueueSize"
    and "length events - availableToWrite \<le> n"
  shows "mEventQueue
           (postEventsToMessageQueue kMaxSizePendingWriteEventsQueue now availableToWrite events
              numWakeupEvents wakelockIsLocked s) = mEventQueue s @ take availableToWrite events
       \<and> mPendingWriteEventsQueue
           (postEventsToMessageQueue kMaxSizePendingWriteEventsQueue now availableToWrite events
              numWakeupEvents wakelockIsLocked s)
           = [(drop availableToWrite events, numWakeupEvents)]
       \<and> mSizePendingWriteEventsQueue
           (postEventsToMessageQueue kMaxSizePendingWriteEventsQueue now availableToWrite events
              numWakeupEvents wakelockIsLocked s)
           = mSizePendingWriteEventsQueue s + of_nat (length events - availableToWrite)
       \<and> mPendingWriteEventsQueue
           (handlePendingWrites WAKE_UP eventQueueSize (replicate n True)
              (postEventsToMessageQueue kMaxSizePendingWriteEventsQueue now availableToWrite
                 events numWakeupEvents wakelockIsLocked s)) = []
       \<and> mEventQueue
           (handlePendingWrites WAKE_UP eventQueueSize (replicate n True)
              (postEventsToMessageQueue kMaxSizePendingWriteEventsQueue now availableToWrite
                 events numWakeupEvents wakelockIsLocked s)) = mEventQueue s @ events
       \<and> mSizePendingWriteEventsQueue
           (handlePendingWrites WAKE_UP eventQueueSize (replicate n True)
              (postEventsToMessageQueue kMaxSizePendingWriteEventsQueue now availableToWrite
                 events numWakeupEvents wakelockIsLocked s)) = mSizePendingWriteEventsQueue s"
proof -
  let ?p = "postEventsToMessageQueue kMaxSizePendingWriteEventsQueue now availableToWrite
              events numWakeupEvents wakelockIsLocked s"
  note p = postEventsToMessageQueue_partial [OF assms(1-3), of now numWakeupEvents
      wakelockIsLocked]
  have run: "mThreadsRun ?p" using p(4) assms(4) by simp
  have ne: "drop availableToWrite events \<noteq> []" using assms(2) by simp
  have len: "length (drop availableToWrite events) \<le> n" using assms(6) by simp
  have d: "handlePendingWrites WAKE_UP eventQueueSize (replicate n True) ?p =
           ?p\<lparr>mEventQueue := mEventQueue ?p @ drop availableToWrite events,
             mSizePendingWriteEventsQueue :=
               mSizePendingWriteEventsQueue ?p - of_nat (length (drop availableToWrite events)),
             mPendingWriteEventsQueue := []\<rparr>"
    by (rule handlePendingWrites_drain [OF assms(5) run ne len p(2)])
  show ?thesis
    by (simp add: d p(1) p(2) p(3))
qed

theorem post_then_drain_witness:
  "mPendingWriteEventsQueue twoSubHals = []
   \<and> (1 :: nat) < length fourEvents
   \<and> mSizePendingWriteEventsQueue twoSubHals + of_nat (length fourEvents - 1) \<le> (10 :: size_t)
   \<and> mThreadsRun twoSubHals
   \<and> mEventQueue (postEventsToMessageQueue 10 7 1 fourEvents 4 True twoSubHals)
        = take 1 fourEvents
   \<and> mPendingWriteEventsQueue (postEventsToMessageQueue 10 7 1 fourEvents 4 True twoSubHals)
        = [(drop 1 fourEvents, 4)]
   \<and> mSizePendingWriteEventsQueue (postEventsToMessageQueue 10 7 1 fourEvents 4 True twoSubHals)
        = 3
   \<and> mPendingWriteEventsQueue
        (handlePendingWrites 1 2 (replicate 3 True)
           (postEventsToMessageQueue 10 7 1 fourEvents 4 True twoSubHals)) = []
   \<and> mEventQueue
        (handlePendingWrites 1 2 (replicate 3 True)
           (postEventsToMessageQueue 10 7 1 fourEvents 4 True twoSubHals)) = fourEvents
   \<and> mSizePendingWriteEventsQueue
        (handlePendingWrites 1 2 (replicate 3 True)
           (postEventsToMessageQueue 10 7 1 fourEvents 4 True twoSubHals)) = 0"
proof -
  have a: "mPendingWriteEventsQueue twoSubHals = []"
    and b: "(1 :: nat) < length fourEvents"
    and c: "mSizePendingWriteEventsQueue twoSubHals + of_nat (length fourEvents - 1)
              \<le> (10 :: size_t)"
    and d: "mThreadsRun twoSubHals"
    and e: "(0 :: nat) < 2"
    and f: "length fourEvents - 1 \<le> 3"
    by (simp_all add: twoSubHals_queue_fields fourEvents_def)
  from post_then_drain [OF a b c d e f, of 7 4 True 1] a b c d
  show ?thesis by (simp add: twoSubHals_queue_fields fourEvents_def)
qed

section \<open>Setting the operation mode\<close>

lemma rollback_fold:
  "fold (\<lambda>i s'. snd (callSubHal rsp i (SetOperationMode (mCurrentOperationMode s')) s')) xs s
     = s\<lparr>subHalCalls :=
            subHalCalls s @ map (\<lambda>i. (i, SetOperationMode (mCurrentOperationMode s))) xs\<rparr>"
  by (induction xs arbitrary: s) (simp_all add: callSubHal_def Let_def)
lemma setOperationMode_loop_reject:
  assumes "k < length (mSubHalList s)"
    and "i \<le> k"
    and "\<forall>j. i \<le> j \<and> j < k \<longrightarrow>
           fst (rsp (subHalCalls s @ map (\<lambda>j. (j, SetOperationMode mode)) [i..<Suc j])) = OK"
    and "fst (rsp (subHalCalls s @ map (\<lambda>j. (j, SetOperationMode mode)) [i..<Suc k])) \<noteq> OK"
  shows "setOperationMode_loop rsp mode i s =
           (fst (rsp (subHalCalls s @ map (\<lambda>j. (j, SetOperationMode mode)) [i..<Suc k])), k,
            s\<lparr>subHalCalls := subHalCalls s @ map (\<lambda>j. (j, SetOperationMode mode)) [i..<Suc k],
              errorLog := errorLog s @ [SetOperationModeFailed (getName (mSubHalList s ! k))]\<rparr>)"
  using assms
proof (induction "k - i" arbitrary: i s)
  case 0
  then have ik: "i = k" by simp
  show ?case
    using "0.prems"(1,4) unfolding ik
    by (subst setOperationMode_loop.simps) (simp add: callSubHal_def Let_def ALOGE_def)
next
  case (Suc d)
  then have lt: "i < k" by simp
  let ?s' = "s\<lparr>subHalCalls := subHalCalls s @ [(i, SetOperationMode mode)]\<rparr>"
  have ok: "fst (rsp (subHalCalls s @ [(i, SetOperationMode mode)])) = OK"
    using Suc.prems(3) lt by (auto dest: spec [of _ i])
  have step: "setOperationMode_loop rsp mode i s = setOperationMode_loop rsp mode (Suc i) ?s'"
    using lt Suc.prems(1) ok
    by (subst setOperationMode_loop.simps) (simp add: callSubHal_def Let_def)
  have d: "d = k - Suc i" using Suc.hyps(2) by simp
  have k': "k < length (mSubHalList ?s')" using Suc.prems(1) by simp
  have le: "Suc i \<le> k" using lt by simp
  have tr: "\<And>j. i \<le> j \<Longrightarrow> subHalCalls ?s' @ map (\<lambda>j. (j, SetOperationMode mode)) [Suc i..<Suc j]
              = subHalCalls s @ map (\<lambda>j. (j, SetOperationMode mode)) [i..<Suc j]"
    by (simp add: upt_conv_Cons del: upt_Suc)
  have h3: "\<forall>j. Suc i \<le> j \<and> j < k \<longrightarrow>
           fst (rsp (subHalCalls ?s' @ map (\<lambda>j. (j, SetOperationMode mode)) [Suc i..<Suc j])) = OK"
  proof (intro allI impI)
    fix j assume j: "Suc i \<le> j \<and> j < k"
    then have ij: "i \<le> j" and "i \<le> j \<and> j < k" by simp_all
    with Suc.prems(3) have "fst (rsp (subHalCalls s @
        map (\<lambda>j. (j, SetOperationMode mode)) [i..<Suc j])) = OK" by blast
    then show "fst (rsp (subHalCalls ?s' @
        map (\<lambda>j. (j, SetOperationMode mode)) [Suc i..<Suc j])) = OK"
      unfolding tr [OF ij] .
  qed
  have h4: "fst (rsp (subHalCalls ?s' @ map (\<lambda>j. (j, SetOperationMode mode)) [Suc i..<Suc k])) \<noteq> OK"
  proof -
    from lt have ik: "i \<le> k" by simp
    from Suc.prems(4) show ?thesis unfolding tr [OF ik] .
  qed
  show ?case
    unfolding step
  proof -
    from lt have ik: "i \<le> k" by simp
    show "setOperationMode_loop rsp mode (Suc i) ?s' =
           (fst (rsp (subHalCalls s @ map (\<lambda>j. (j, SetOperationMode mode)) [i..<Suc k])), k,
            s\<lparr>subHalCalls := subHalCalls s @ map (\<lambda>j. (j, SetOperationMode mode)) [i..<Suc k],
              errorLog := errorLog s @ [SetOperationModeFailed (getName (mSubHalList s ! k))]\<rparr>)"
      using Suc.hyps(1) [OF d k' le h3 h4]
      unfolding tr [OF ik] by simp
  qed
qed


lemma setOperationMode_loop_accept:
  assumes "i \<le> length (mSubHalList s)"
    and "\<forall>j. i \<le> j \<and> j < length (mSubHalList s) \<longrightarrow>
           fst (rsp (subHalCalls s @ map (\<lambda>j. (j, SetOperationMode mode)) [i..<Suc j])) = OK"
  shows "setOperationMode_loop rsp mode i s =
           (OK, length (mSubHalList s),
            s\<lparr>subHalCalls := subHalCalls s @
                  map (\<lambda>j. (j, SetOperationMode mode)) [i..<length (mSubHalList s)]\<rparr>)"
  using assms
proof (induction "length (mSubHalList s) - i" arbitrary: i s)
  case 0
  then have "i = length (mSubHalList s)" by simp
  then show ?case
    by (subst setOperationMode_loop.simps) simp
next
  case (Suc d)
  then have lt: "i < length (mSubHalList s)" by simp
  let ?s' = "s\<lparr>subHalCalls := subHalCalls s @ [(i, SetOperationMode mode)]\<rparr>"
  have ok: "fst (rsp (subHalCalls s @ [(i, SetOperationMode mode)])) = OK"
    using Suc.prems(2) lt by (auto dest: spec [of _ i])
  have step: "setOperationMode_loop rsp mode i s = setOperationMode_loop rsp mode (Suc i) ?s'"
    using lt ok
    by (subst setOperationMode_loop.simps) (simp add: callSubHal_def Let_def)
  have d: "d = length (mSubHalList ?s') - Suc i" using Suc.hyps(2) by simp
  have le: "Suc i \<le> length (mSubHalList ?s')" using lt by simp
  have tr: "\<And>j. i \<le> j \<Longrightarrow> subHalCalls ?s' @ map (\<lambda>j. (j, SetOperationMode mode)) [Suc i..<Suc j]
              = subHalCalls s @ map (\<lambda>j. (j, SetOperationMode mode)) [i..<Suc j]"
    by (simp add: upt_conv_Cons del: upt_Suc)
  have tr': "subHalCalls ?s' @ map (\<lambda>j. (j, SetOperationMode mode))
                 [Suc i..<length (mSubHalList s)]
              = subHalCalls s @ map (\<lambda>j. (j, SetOperationMode mode))
                 [i..<length (mSubHalList s)]"
    using lt by (simp add: upt_conv_Cons)
  have h: "\<forall>j. Suc i \<le> j \<and> j < length (mSubHalList ?s') \<longrightarrow>
           fst (rsp (subHalCalls ?s' @ map (\<lambda>j. (j, SetOperationMode mode)) [Suc i..<Suc j])) = OK"
  proof (intro allI impI)
    fix j assume j: "Suc i \<le> j \<and> j < length (mSubHalList ?s')"
    then have ij: "i \<le> j" and "i \<le> j \<and> j < length (mSubHalList s)" by simp_all
    with Suc.prems(2) have "fst (rsp (subHalCalls s @
        map (\<lambda>j. (j, SetOperationMode mode)) [i..<Suc j])) = OK" by blast
    then show "fst (rsp (subHalCalls ?s' @
        map (\<lambda>j. (j, SetOperationMode mode)) [Suc i..<Suc j])) = OK"
      unfolding tr [OF ij] .
  qed
  have "setOperationMode_loop rsp mode (Suc i) ?s' =
           (OK, length (mSubHalList ?s'),
            ?s'\<lparr>subHalCalls := subHalCalls ?s' @
                  map (\<lambda>j. (j, SetOperationMode mode)) [Suc i..<length (mSubHalList ?s')]\<rparr>)"
    by (rule Suc.hyps(1) [OF d le h])
  also have "\<dots> = (OK, length (mSubHalList s),
            s\<lparr>subHalCalls := subHalCalls s @
                  map (\<lambda>j. (j, SetOperationMode mode)) [i..<length (mSubHalList s)]\<rparr>)"
    using tr' by simp
  finally show ?case unfolding step .
qed

text \<open>
  C6: when the sub-HAL at index \<open>k\<close> is the first to refuse the mode, \<open>setOperationMode\<close>
  returns its failure, has then called every sub-HAL below \<open>k\<close> again with the recorded
  mode, and leaves the recorded mode as it was; when all accept it returns \<open>OK\<close> and
  records the new mode. What a sub-HAL answers is read off the trace at the time of its call.
\<close>

theorem setOperationMode_transactional:
  "(k < length (mSubHalList s)
      \<and> (\<forall>j<k. fst (rsp (subHalCalls s @
                    map (\<lambda>j. (j, SetOperationMode mode)) [0..<Suc j])) = OK)
      \<and> fst (rsp (subHalCalls s @ map (\<lambda>j. (j, SetOperationMode mode)) [0..<Suc k])) \<noteq> OK
    \<longrightarrow>
      setOperationMode rsp mode s =
        (fst (rsp (subHalCalls s @ map (\<lambda>j. (j, SetOperationMode mode)) [0..<Suc k])),
         s\<lparr>subHalCalls :=
              subHalCalls s @ map (\<lambda>j. (j, SetOperationMode mode)) [0..<Suc k]
                @ map (\<lambda>i. (i, SetOperationMode (mCurrentOperationMode s))) [0..<k],
           errorLog := errorLog s @ [SetOperationModeFailed (getName (mSubHalList s ! k))]\<rparr>))
   \<and> ((\<forall>j<length (mSubHalList s).
          fst (rsp (subHalCalls s @ map (\<lambda>j. (j, SetOperationMode mode)) [0..<Suc j])) = OK)
    \<longrightarrow>
      setOperationMode rsp mode s =
        (OK,
         s\<lparr>subHalCalls :=
              subHalCalls s @ map (\<lambda>j. (j, SetOperationMode mode)) [0..<length (mSubHalList s)],
           mCurrentOperationMode := mode\<rparr>))"
proof (intro conjI impI)
  assume a: "k < length (mSubHalList s)
      \<and> (\<forall>j<k. fst (rsp (subHalCalls s @
                    map (\<lambda>j. (j, SetOperationMode mode)) [0..<Suc j])) = OK)
      \<and> fst (rsp (subHalCalls s @ map (\<lambda>j. (j, SetOperationMode mode)) [0..<Suc k])) \<noteq> OK"
  then have k: "k < length (mSubHalList s)"
    and acc: "\<forall>j. 0 \<le> j \<and> j < k \<longrightarrow>
           fst (rsp (subHalCalls s @ map (\<lambda>j. (j, SetOperationMode mode)) [0..<Suc j])) = OK"
    and rej: "fst (rsp (subHalCalls s @ map (\<lambda>j. (j, SetOperationMode mode)) [0..<Suc k])) \<noteq> OK"
    by simp_all
  have z: "0 \<le> k" by simp
  note l = setOperationMode_loop_reject [OF k z acc rej]
  show "setOperationMode rsp mode s =
        (fst (rsp (subHalCalls s @ map (\<lambda>j. (j, SetOperationMode mode)) [0..<Suc k])),
         s\<lparr>subHalCalls :=
              subHalCalls s @ map (\<lambda>j. (j, SetOperationMode mode)) [0..<Suc k]
                @ map (\<lambda>i. (i, SetOperationMode (mCurrentOperationMode s))) [0..<k],
           errorLog := errorLog s @ [SetOperationModeFailed (getName (mSubHalList s ! k))]\<rparr>)"
    unfolding setOperationMode_def l using rej
    by (simp add: rollback_fold del: upt_Suc)
next
  assume a: "\<forall>j<length (mSubHalList s).
          fst (rsp (subHalCalls s @ map (\<lambda>j. (j, SetOperationMode mode)) [0..<Suc j])) = OK"
  then have acc: "\<forall>j. 0 \<le> j \<and> j < length (mSubHalList s) \<longrightarrow>
           fst (rsp (subHalCalls s @ map (\<lambda>j. (j, SetOperationMode mode)) [0..<Suc j])) = OK"
    by simp
  have z: "0 \<le> length (mSubHalList s)" by simp
  note l = setOperationMode_loop_accept [OF z acc]
  show "setOperationMode rsp mode s =
        (OK,
         s\<lparr>subHalCalls :=
              subHalCalls s @ map (\<lambda>j. (j, SetOperationMode mode)) [0..<length (mSubHalList s)],
           mCurrentOperationMode := mode\<rparr>)"
    unfolding setOperationMode_def l by simp
qed

lemma twoSubHals_subHalList:
  "mSubHalList twoSubHals =
     [\<lparr>subHalObject = 0, getName = ''subhal0''\<rparr>, \<lparr>subHalObject = 1, getName = ''subhal1''\<rparr>]"
  "errorLog twoSubHals = []"
  by (simp_all add: twoSubHals_def initialHalProxy_def)

theorem setOperationMode_transactional_witness:
  "(1 :: nat) < length (mSubHalList twoSubHals)
   \<and> fst (rejectAtSubHal1 [(0, SetOperationMode DATA_INJECTION)]) = OK
   \<and> fst (rejectAtSubHal1 [(0, SetOperationMode DATA_INJECTION),
                            (1, SetOperationMode DATA_INJECTION)]) \<noteq> OK
   \<and> setOperationMode rejectAtSubHal1 DATA_INJECTION twoSubHals =
       (BAD_VALUE,
        twoSubHals\<lparr>subHalCalls :=
                     [(0, SetOperationMode DATA_INJECTION), (1, SetOperationMode DATA_INJECTION),
                      (0, SetOperationMode NORMAL)],
                   errorLog := [SetOperationModeFailed ''subhal1'']\<rparr>)
   \<and> setOperationMode (\<lambda>tr. (OK, 0)) DATA_INJECTION twoSubHals =
       (OK,
        twoSubHals\<lparr>subHalCalls :=
                     [(0, SetOperationMode DATA_INJECTION), (1, SetOperationMode DATA_INJECTION)],
                   mCurrentOperationMode := DATA_INJECTION\<rparr>)"
proof -
  have u1: "[0..<Suc 1] = [0, 1]" and u0: "[0..<Suc 0] = [0]" and u: "[0..<1] = [0]"
    and u2: "[0..<2] = [0, 1]"
    by (simp_all add: upt_rec)
  have a: "(1 :: nat) < length (mSubHalList twoSubHals)
      \<and> (\<forall>j<1. fst (rejectAtSubHal1 (subHalCalls twoSubHals @
                    map (\<lambda>j. (j, SetOperationMode DATA_INJECTION)) [0..<Suc j])) = OK)
      \<and> fst (rejectAtSubHal1 (subHalCalls twoSubHals @
                    map (\<lambda>j. (j, SetOperationMode DATA_INJECTION)) [0..<Suc 1])) \<noteq> OK"
    by (simp add: twoSubHals_fields twoSubHals_subHalList rejectAtSubHal1_def)
  have b: "\<forall>j<length (mSubHalList twoSubHals).
          fst ((\<lambda>tr. (OK, 0 :: int32_t)) (subHalCalls twoSubHals @
                 map (\<lambda>j. (j, SetOperationMode DATA_INJECTION)) [0..<Suc j])) = OK"
    by simp
  from setOperationMode_transactional [of 1 twoSubHals rejectAtSubHal1 DATA_INJECTION] a
  have r: "setOperationMode rejectAtSubHal1 DATA_INJECTION twoSubHals =
       (BAD_VALUE,
        twoSubHals\<lparr>subHalCalls :=
                     [(0, SetOperationMode DATA_INJECTION), (1, SetOperationMode DATA_INJECTION),
                      (0, SetOperationMode NORMAL)],
                   errorLog := [SetOperationModeFailed ''subhal1'']\<rparr>)"
    by (simp add: twoSubHals_fields twoSubHals_subHalList rejectAtSubHal1_def)
  from setOperationMode_transactional [of 1 twoSubHals "\<lambda>tr. (OK, 0)" DATA_INJECTION] b
  have k: "setOperationMode (\<lambda>tr. (OK, 0)) DATA_INJECTION twoSubHals =
       (OK,
        twoSubHals\<lparr>subHalCalls :=
                     [(0, SetOperationMode DATA_INJECTION), (1, SetOperationMode DATA_INJECTION)],
                   mCurrentOperationMode := DATA_INJECTION\<rparr>)"
    by (simp add: twoSubHals_fields twoSubHals_subHalList u2)
  from a r k show ?thesis
    by (simp add: twoSubHals_fields twoSubHals_subHalList rejectAtSubHal1_def)
qed

section \<open>Descriptors with namespace bits already set\<close>

lemma setDirectChannelFlags_fields:
  "infoSensorHandle (fst (setDirectChannelFlags directMask x subHal s)) = infoSensorHandle x"
  "sensorName (fst (setDirectChannelFlags directMask x subHal s)) = sensorName x"
  "mSensors (snd (setDirectChannelFlags directMask x subHal s)) = mSensors s"
  "errorLog (snd (setDirectChannelFlags directMask x subHal s)) = errorLog s"
  "mSubHalList (snd (setDirectChannelFlags directMask x subHal s)) = mSubHalList s"
  by (simp_all add: setDirectChannelFlags_def Let_def split: option.splits)

lemma setDirectChannelFlags_flags:
  "flags (fst (setDirectChannelFlags directMask x subHal s)) = flags x
   \<or> flags (fst (setDirectChannelFlags directMask x subHal s)) = flags x AND NOT directMask"
  by (simp add: setDirectChannelFlags_def Let_def split: option.splits)

lemma setDirectChannelFlags_cong:
  "mDirectChannelSubHal s = mDirectChannelSubHal t \<Longrightarrow> mSubHalList s = mSubHalList t \<Longrightarrow>
   fst (setDirectChannelFlags directMask x subHal s) = fst (setDirectChannelFlags directMask x subHal t)
   \<and> mDirectChannelSubHal (snd (setDirectChannelFlags directMask x subHal s))
       = mDirectChannelSubHal (snd (setDirectChannelFlags directMask x subHal t))"
  by (simp add: setDirectChannelFlags_def Let_def split: option.splits)

text \<open>
  A second pointer to the object that has the direct channel keeps its flags; a pointer to
  another object loses them.
\<close>

lemma setDirectChannelFlags_designated:
  "mDirectChannelSubHal s = Some d \<Longrightarrow>
   setDirectChannelFlags directMask x subHal s =
     (if subHalObject (mSubHalList s ! subHal) = subHalObject (mSubHalList s ! d) then (x, s)
      else (x\<lparr>flags := flags x AND NOT directMask\<rparr>, s))"
  by (simp add: setDirectChannelFlags_def Let_def)

text \<open>The state after one descriptor of the callback.\<close>

lemma initializeSensorList_cb_Cons:
  "initializeSensorList_cb directMask subHalIndex (sensor # list) s =
     initializeSensorList_cb directMask subHalIndex list
       (if \<not> subHalIndexIsClear (infoSensorHandle sensor) then ALOGE SubHalSensorHandleNotClear s
        else
          (snd (setDirectChannelFlags directMask
                  (sensor\<lparr>infoSensorHandle :=
                            setSubHalIndex (infoSensorHandle sensor) (of_nat subHalIndex)\<rparr>)
                  subHalIndex s))
            \<lparr>mSensors := (mSensors s)
               (setSubHalIndex (infoSensorHandle sensor) (of_nat subHalIndex) \<mapsto>
                  fst (setDirectChannelFlags directMask
                         (sensor\<lparr>infoSensorHandle :=
                            setSubHalIndex (infoSensorHandle sensor) (of_nat subHalIndex)\<rparr>)
                         subHalIndex s))\<rparr>)"
  by (simp add: case_prod_beta setDirectChannelFlags_fields)

lemma initializeSensorList_cb_mSubHalList:
  "mSubHalList (initializeSensorList_cb directMask subHalIndex list s) = mSubHalList s"
  by (induction list arbitrary: s)
     (simp_all add: initializeSensorList_cb_Cons setDirectChannelFlags_fields ALOGE_def
        del: initializeSensorList_cb.simps(2))

lemma initializeSensorList_cb_filter_gen:
  "mSensors s = mSensors t \<Longrightarrow> mDirectChannelSubHal s = mDirectChannelSubHal t \<Longrightarrow>
   mSubHalList s = mSubHalList t \<Longrightarrow>
   mSensors (initializeSensorList_cb directMask subHalIndex list s)
     = mSensors (initializeSensorList_cb directMask subHalIndex
          (filter (\<lambda>d. subHalIndexIsClear (infoSensorHandle d)) list) t)
   \<and> mDirectChannelSubHal (initializeSensorList_cb directMask subHalIndex list s)
     = mDirectChannelSubHal (initializeSensorList_cb directMask subHalIndex
          (filter (\<lambda>d. subHalIndexIsClear (infoSensorHandle d)) list) t)"
proof (induction list arbitrary: s t)
  case Nil
  then show ?case by simp
next
  case (Cons sensor list)
  show ?case
  proof (cases "subHalIndexIsClear (infoSensorHandle sensor)")
    case False
    have "mSensors (ALOGE SubHalSensorHandleNotClear s) = mSensors t"
      and "mDirectChannelSubHal (ALOGE SubHalSensorHandleNotClear s) = mDirectChannelSubHal t"
      and "mSubHalList (ALOGE SubHalSensorHandleNotClear s) = mSubHalList t"
      using Cons.prems by (simp_all add: ALOGE_def)
    from Cons.IH [OF this] False show ?thesis by simp
  next
    case True
    let ?x = "sensor\<lparr>infoSensorHandle :=
                 setSubHalIndex (infoSensorHandle sensor) (of_nat subHalIndex)\<rparr>"
    let ?k = "setSubHalIndex (infoSensorHandle sensor) (of_nat subHalIndex)"
    let ?s1 = "(snd (setDirectChannelFlags directMask ?x subHalIndex s))
                 \<lparr>mSensors := (mSensors s)(?k \<mapsto> fst (setDirectChannelFlags directMask ?x subHalIndex s))\<rparr>"
    let ?t1 = "(snd (setDirectChannelFlags directMask ?x subHalIndex t))
                 \<lparr>mSensors := (mSensors t)(?k \<mapsto> fst (setDirectChannelFlags directMask ?x subHalIndex t))\<rparr>"
    note c = setDirectChannelFlags_cong [OF Cons.prems(2,3), of directMask ?x subHalIndex]
    have m: "mSensors ?s1 = mSensors ?t1" using Cons.prems(1) c by simp
    have d: "mDirectChannelSubHal ?s1 = mDirectChannelSubHal ?t1" using c by simp
    have l: "mSubHalList ?s1 = mSubHalList ?t1"
      using Cons.prems(3) by (simp add: setDirectChannelFlags_fields)
    from Cons.IH [OF m d l] True show ?thesis
      by (simp add: initializeSensorList_cb_Cons del: initializeSensorList_cb.simps(2))
  qed
qed

lemma initializeSensorList_cb_errorLog:
  "errorLog (initializeSensorList_cb directMask subHalIndex list s)
     = errorLog s @ replicate
         (length (filter (\<lambda>d. \<not> subHalIndexIsClear (infoSensorHandle d)) list))
         SubHalSensorHandleNotClear"
  by (induction list arbitrary: s)
     (simp_all add: initializeSensorList_cb_Cons ALOGE_def setDirectChannelFlags_fields
        replicate_app_Cons_same del: initializeSensorList_cb.simps(2))

lemma initializeSensorList_cb_key_stays:
  "\<exists>v. mSensors s k = Some v \<and> infoSensorHandle v = k \<Longrightarrow>
   \<exists>v. mSensors (initializeSensorList_cb directMask subHalIndex list s) k = Some v
       \<and> infoSensorHandle v = k"
proof (induction list arbitrary: s)
  case Nil
  then show ?case by simp
next
  case (Cons sensor list)
  show ?case
    unfolding initializeSensorList_cb_Cons
  proof (rule Cons.IH)
    show "\<exists>v. mSensors
            (if \<not> subHalIndexIsClear (infoSensorHandle sensor)
             then ALOGE SubHalSensorHandleNotClear s
             else (snd (setDirectChannelFlags directMask
                     (sensor\<lparr>infoSensorHandle :=
                        setSubHalIndex (infoSensorHandle sensor) (of_nat subHalIndex)\<rparr>)
                     subHalIndex s))
                    \<lparr>mSensors := (mSensors s)
                       (setSubHalIndex (infoSensorHandle sensor) (of_nat subHalIndex) \<mapsto>
                          fst (setDirectChannelFlags directMask
                                 (sensor\<lparr>infoSensorHandle :=
                                    setSubHalIndex (infoSensorHandle sensor)
                                      (of_nat subHalIndex)\<rparr>)
                                 subHalIndex s))\<rparr>) k = Some v
          \<and> infoSensorHandle v = k"
      using Cons.prems by (auto simp add: ALOGE_def setDirectChannelFlags_fields)
  qed
qed

lemma initializeSensorList_cb_inserted:
  "d \<in> set list \<Longrightarrow> subHalIndexIsClear (infoSensorHandle d) \<Longrightarrow>
   \<exists>v. mSensors (initializeSensorList_cb directMask subHalIndex list s)
          (setSubHalIndex (infoSensorHandle d) (of_nat subHalIndex)) = Some v
       \<and> infoSensorHandle v = setSubHalIndex (infoSensorHandle d) (of_nat subHalIndex)"
proof (induction list arbitrary: s)
  case Nil
  then show ?case by simp
next
  case (Cons sensor list)
  show ?case
  proof (cases "d = sensor")
    case True
    show ?thesis
      unfolding initializeSensorList_cb_Cons
    proof (rule initializeSensorList_cb_key_stays)
      show "\<exists>v. mSensors
            (if \<not> subHalIndexIsClear (infoSensorHandle sensor)
             then ALOGE SubHalSensorHandleNotClear s
             else (snd (setDirectChannelFlags directMask
                     (sensor\<lparr>infoSensorHandle :=
                        setSubHalIndex (infoSensorHandle sensor) (of_nat subHalIndex)\<rparr>)
                     subHalIndex s))
                    \<lparr>mSensors := (mSensors s)
                       (setSubHalIndex (infoSensorHandle sensor) (of_nat subHalIndex) \<mapsto>
                          fst (setDirectChannelFlags directMask
                                 (sensor\<lparr>infoSensorHandle :=
                                    setSubHalIndex (infoSensorHandle sensor)
                                      (of_nat subHalIndex)\<rparr>)
                                 subHalIndex s))\<rparr>)
              (setSubHalIndex (infoSensorHandle d) (of_nat subHalIndex)) = Some v
          \<and> infoSensorHandle v = setSubHalIndex (infoSensorHandle d) (of_nat subHalIndex)"
        using True Cons.prems(2) by (simp add: setDirectChannelFlags_fields)
    qed
  next
    case False
    with Cons.prems have "d \<in> set list" by simp
    from Cons.IH [OF this Cons.prems(2)] show ?thesis
      unfolding initializeSensorList_cb_Cons .
  qed
qed

text \<open>Where an entry of the catalog after the callback comes from.\<close>

lemma initializeSensorList_cb_origin:
  "mSensors (initializeSensorList_cb directMask subHalIndex list s) k = mSensors s k
   \<or> (\<exists>d \<in> set list. \<exists>v.
         subHalIndexIsClear (infoSensorHandle d)
         \<and> k = setSubHalIndex (infoSensorHandle d) (of_nat subHalIndex)
         \<and> mSensors (initializeSensorList_cb directMask subHalIndex list s) k = Some v
         \<and> infoSensorHandle v = k \<and> sensorName v = sensorName d
         \<and> (flags v = flags d \<or> flags v = flags d AND NOT directMask))"
proof (induction list arbitrary: s)
  case Nil
  then show ?case by simp
next
  case (Cons sensor list)
  let ?x = "sensor\<lparr>infoSensorHandle :=
               setSubHalIndex (infoSensorHandle sensor) (of_nat subHalIndex)\<rparr>"
  let ?k = "setSubHalIndex (infoSensorHandle sensor) (of_nat subHalIndex)"
  let ?v = "fst (setDirectChannelFlags directMask ?x subHalIndex s)"
  let ?s1 = "(if \<not> subHalIndexIsClear (infoSensorHandle sensor)
              then ALOGE SubHalSensorHandleNotClear s
              else (snd (setDirectChannelFlags directMask ?x subHalIndex s))
                     \<lparr>mSensors := (mSensors s)(?k \<mapsto> ?v)\<rparr>)"
  let ?f = "initializeSensorList_cb directMask subHalIndex list ?s1"
  have step: "initializeSensorList_cb directMask subHalIndex (sensor # list) s = ?f"
    by (rule initializeSensorList_cb_Cons)
  from Cons.IH [of ?s1]
  consider (same) "mSensors ?f k = mSensors ?s1 k"
    | (new) "\<exists>d \<in> set list. \<exists>v.
         subHalIndexIsClear (infoSensorHandle d)
         \<and> k = setSubHalIndex (infoSensorHandle d) (of_nat subHalIndex)
         \<and> mSensors ?f k = Some v
         \<and> infoSensorHandle v = k \<and> sensorName v = sensorName d
         \<and> (flags v = flags d \<or> flags v = flags d AND NOT directMask)"
    by blast
  then show ?case
  proof cases
    case new
    then show ?thesis unfolding step by auto
  next
    case same
    show ?thesis
    proof (cases "subHalIndexIsClear (infoSensorHandle sensor) \<and> k = ?k")
      case False
      then have "mSensors ?s1 k = mSensors s k" by (auto simp add: ALOGE_def)
      with same show ?thesis unfolding step by simp
    next
      case True
      then have "mSensors ?s1 k = Some ?v" by simp
      with same have f: "mSensors ?f k = Some ?v" by simp
      have "infoSensorHandle ?v = k" "sensorName ?v = sensorName sensor"
        using True by (simp_all add: setDirectChannelFlags_fields)
      moreover have "flags ?v = flags sensor \<or> flags ?v = flags sensor AND NOT directMask"
        using setDirectChannelFlags_flags [of directMask ?x subHalIndex s] by simp
      ultimately show ?thesis
        unfolding step using True f by (intro disjI2 bexI [of _ sensor]) auto
    qed
  qed
qed


text \<open>The loop over the sub-HALs.\<close>

lemma initializeSensorList_iteration_mSubHalList:
  "mSubHalList (initializeSensorList_iteration directMask getSensorsList i s) = mSubHalList s"
  by (simp add: initializeSensorList_iteration_def initializeSensorList_cb_mSubHalList ALOGE_def
      split: option.splits)

lemma initializeSensorList_fold_mSubHalList:
  "mSubHalList (fold (initializeSensorList_iteration directMask getSensorsList) xs s)
     = mSubHalList s"
  by (induction xs arbitrary: s) (simp_all add: initializeSensorList_iteration_mSubHalList)

lemma initializeSensorList_fold_errorLog_gen:
  "mSubHalList s = subHals \<Longrightarrow>
   errorLog (fold (initializeSensorList_iteration directMask getSensorsList) xs s)
     = errorLog s @ concat (map (\<lambda>i.
         case getSensorsList i of
           Some list \<Rightarrow>
             replicate (length (filter (\<lambda>d. \<not> subHalIndexIsClear (infoSensorHandle d)) list))
               SubHalSensorHandleNotClear
         | None \<Rightarrow> [GetSensorsListFailed (getName (subHals ! i))]) xs)"
proof (induction xs arbitrary: s)
  case Nil
  then show ?case by simp
next
  case (Cons i xs)
  let ?s1 = "initializeSensorList_iteration directMask getSensorsList i s"
  have l: "mSubHalList ?s1 = subHals"
    using Cons.prems by (simp add: initializeSensorList_iteration_mSubHalList)
  have e: "errorLog ?s1 = errorLog s @
         (case getSensorsList i of
           Some list \<Rightarrow>
             replicate (length (filter (\<lambda>d. \<not> subHalIndexIsClear (infoSensorHandle d)) list))
               SubHalSensorHandleNotClear
         | None \<Rightarrow> [GetSensorsListFailed (getName (subHals ! i))])"
    using Cons.prems
    by (simp add: initializeSensorList_iteration_def initializeSensorList_cb_errorLog ALOGE_def
        split: option.splits)
  show ?case
    using Cons.IH [OF l] by (simp add: e)
qed

lemma initializeSensorList_fold_errorLog:
  "errorLog (fold (initializeSensorList_iteration directMask getSensorsList) xs s)
     = errorLog s @ concat (map (\<lambda>i.
         case getSensorsList i of
           Some list \<Rightarrow>
             replicate (length (filter (\<lambda>d. \<not> subHalIndexIsClear (infoSensorHandle d)) list))
               SubHalSensorHandleNotClear
         | None \<Rightarrow> [GetSensorsListFailed (getName (mSubHalList s ! i))]) xs)"
  by (rule initializeSensorList_fold_errorLog_gen) simp

lemma initializeSensorList_iteration_key_stays:
  "\<exists>v. mSensors s k = Some v \<and> infoSensorHandle v = k \<Longrightarrow>
   \<exists>v. mSensors (initializeSensorList_iteration directMask getSensorsList i s) k = Some v
       \<and> infoSensorHandle v = k"
  by (cases "getSensorsList i")
     (simp_all add: initializeSensorList_iteration_def ALOGE_def
        initializeSensorList_cb_key_stays)

lemma initializeSensorList_fold_key_stays:
  "\<exists>v. mSensors s k = Some v \<and> infoSensorHandle v = k \<Longrightarrow>
   \<exists>v. mSensors (fold (initializeSensorList_iteration directMask getSensorsList) xs s) k
          = Some v
       \<and> infoSensorHandle v = k"
proof (induction xs arbitrary: s)
  case Nil
  then show ?case by simp
next
  case (Cons i xs)
  from Cons.IH [OF initializeSensorList_iteration_key_stays [OF Cons.prems]]
  show ?case by simp
qed

lemma initializeSensorList_fold_inserted:
  "i \<in> set xs \<Longrightarrow> getSensorsList i = Some list \<Longrightarrow> d \<in> set list \<Longrightarrow>
   subHalIndexIsClear (infoSensorHandle d) \<Longrightarrow>
   \<exists>v. mSensors (fold (initializeSensorList_iteration directMask getSensorsList) xs s)
          (setSubHalIndex (infoSensorHandle d) (of_nat i)) = Some v
       \<and> infoSensorHandle v = setSubHalIndex (infoSensorHandle d) (of_nat i)"
proof (induction xs arbitrary: s)
  case Nil
  then show ?case by simp
next
  case (Cons j xs)
  show ?case
  proof (cases "i = j")
    case True
    have "\<exists>v. mSensors (initializeSensorList_iteration directMask getSensorsList j s)
          (setSubHalIndex (infoSensorHandle d) (of_nat i)) = Some v
       \<and> infoSensorHandle v = setSubHalIndex (infoSensorHandle d) (of_nat i)"
      using True Cons.prems(2) initializeSensorList_cb_inserted [OF Cons.prems(3,4)]
      by (simp add: initializeSensorList_iteration_def)
    from initializeSensorList_fold_key_stays [OF this] show ?thesis by simp
  next
    case False
    with Cons.prems(1) have "i \<in> set xs" by simp
    from Cons.IH [OF this Cons.prems(2-4)] show ?thesis by simp
  qed
qed

lemma initializeSensorList_iteration_origin:
  "mSensors (initializeSensorList_iteration directMask getSensorsList i s) k = mSensors s k
   \<or> (\<exists>list d v. getSensorsList i = Some list \<and> d \<in> set list
         \<and> subHalIndexIsClear (infoSensorHandle d)
         \<and> k = setSubHalIndex (infoSensorHandle d) (of_nat i)
         \<and> mSensors (initializeSensorList_iteration directMask getSensorsList i s) k = Some v
         \<and> infoSensorHandle v = k \<and> sensorName v = sensorName d
         \<and> (flags v = flags d \<or> flags v = flags d AND NOT directMask))"
proof (cases "getSensorsList i")
  case None
  then show ?thesis by (simp add: initializeSensorList_iteration_def ALOGE_def)
next
  case (Some list)
  from initializeSensorList_cb_origin [of directMask i list s k] Some
  show ?thesis by (auto simp add: initializeSensorList_iteration_def)
qed

lemma initializeSensorList_fold_origin:
  "mSensors (fold (initializeSensorList_iteration directMask getSensorsList) xs s) k
     = mSensors s k
   \<or> (\<exists>i \<in> set xs. \<exists>list d v. getSensorsList i = Some list \<and> d \<in> set list
         \<and> subHalIndexIsClear (infoSensorHandle d)
         \<and> k = setSubHalIndex (infoSensorHandle d) (of_nat i)
         \<and> mSensors (fold (initializeSensorList_iteration directMask getSensorsList) xs s) k
             = Some v
         \<and> infoSensorHandle v = k \<and> sensorName v = sensorName d
         \<and> (flags v = flags d \<or> flags v = flags d AND NOT directMask))"
proof (induction xs arbitrary: s)
  case Nil
  then show ?case by simp
next
  case (Cons j xs)
  let ?s1 = "initializeSensorList_iteration directMask getSensorsList j s"
  let ?f = "fold (initializeSensorList_iteration directMask getSensorsList) xs ?s1"
  from Cons.IH [of ?s1]
  consider (same) "mSensors ?f k = mSensors ?s1 k"
    | (new) "\<exists>i \<in> set xs. \<exists>list d v. getSensorsList i = Some list \<and> d \<in> set list
         \<and> subHalIndexIsClear (infoSensorHandle d)
         \<and> k = setSubHalIndex (infoSensorHandle d) (of_nat i)
         \<and> mSensors ?f k = Some v
         \<and> infoSensorHandle v = k \<and> sensorName v = sensorName d
         \<and> (flags v = flags d \<or> flags v = flags d AND NOT directMask)"
    by blast
  then show ?case
  proof cases
    case new
    then show ?thesis by auto
  next
    case same
    from initializeSensorList_iteration_origin [of directMask getSensorsList j s k]
    show ?thesis
    proof
      assume "mSensors ?s1 k = mSensors s k"
      with same show ?thesis by simp
    next
      assume "\<exists>list d v. getSensorsList j = Some list \<and> d \<in> set list
         \<and> subHalIndexIsClear (infoSensorHandle d)
         \<and> k = setSubHalIndex (infoSensorHandle d) (of_nat j)
         \<and> mSensors ?s1 k = Some v
         \<and> infoSensorHandle v = k \<and> sensorName v = sensorName d
         \<and> (flags v = flags d \<or> flags v = flags d AND NOT directMask)"
      with same show ?thesis by (intro disjI2 bexI [of _ j]) auto
    qed
  qed
qed

lemma initializeSensorList_fold_filter:
  "mSensors s = mSensors t \<Longrightarrow> mDirectChannelSubHal s = mDirectChannelSubHal t \<Longrightarrow>
   mSubHalList s = mSubHalList t \<Longrightarrow>
   mSensors (fold (initializeSensorList_iteration directMask getSensorsList) xs s)
   = mSensors
       (fold (initializeSensorList_iteration directMask
                (\<lambda>i. map_option (filter (\<lambda>d. subHalIndexIsClear (infoSensorHandle d)))
                        (getSensorsList i))) xs t)"
proof (induction xs arbitrary: s t)
  case Nil
  then show ?case by simp
next
  case (Cons i xs)
  let ?g = "\<lambda>i. map_option (filter (\<lambda>d. subHalIndexIsClear (infoSensorHandle d)))
                        (getSensorsList i)"
  let ?s1 = "initializeSensorList_iteration directMask getSensorsList i s"
  let ?t1 = "initializeSensorList_iteration directMask ?g i t"
  have l: "mSubHalList ?s1 = mSubHalList ?t1"
    using Cons.prems(3) by (simp add: initializeSensorList_iteration_mSubHalList)
  have "mSensors ?s1 = mSensors ?t1 \<and> mDirectChannelSubHal ?s1 = mDirectChannelSubHal ?t1"
  proof (cases "getSensorsList i")
    case None
    then show ?thesis
      using Cons.prems by (simp add: initializeSensorList_iteration_def ALOGE_def)
  next
    case (Some list)
    then show ?thesis
      using initializeSensorList_cb_filter_gen [OF Cons.prems, of directMask i list]
      by (simp add: initializeSensorList_iteration_def)
  qed
  then have m: "mSensors ?s1 = mSensors ?t1"
    and d: "mDirectChannelSubHal ?s1 = mDirectChannelSubHal ?t1" by simp_all
  from Cons.IH [OF m d l] show ?case by simp
qed


lemma initializeSensorList_filter:
  "mSensors (initializeSensorList directMask getSensorsList s)
     = mSensors (initializeSensorList directMask
         (\<lambda>i. map_option (filter (\<lambda>d. subHalIndexIsClear (infoSensorHandle d)))
                 (getSensorsList i)) s)"
  unfolding initializeSensorList_def
  by (rule initializeSensorList_fold_filter) simp_all

lemma onDynamicSensorsConnected_loop_eq:
  "onDynamicSensorsConnected_loop added subHalIndex sensors s =
     (sensors @ map (\<lambda>d. d\<lparr>infoSensorHandle :=
                             setSubHalIndex (infoSensorHandle d) (scast subHalIndex)\<rparr>)
                  (filter (\<lambda>d. subHalIndexIsClear (infoSensorHandle d)) added),
      s\<lparr>mDynamicSensors :=
           foldl (\<lambda>m d. m(infoSensorHandle d \<mapsto> d)) (mDynamicSensors s)
             (map (\<lambda>d. d\<lparr>infoSensorHandle :=
                             setSubHalIndex (infoSensorHandle d) (scast subHalIndex)\<rparr>)
                  (filter (\<lambda>d. subHalIndexIsClear (infoSensorHandle d)) added)),
        errorLog := errorLog s @
           map (\<lambda>d. DynamicSensorHandleNotClear (sensorName d))
             (filter (\<lambda>d. \<not> subHalIndexIsClear (infoSensorHandle d)) added)\<rparr>)"
  by (induction added arbitrary: sensors s) (simp_all add: ALOGE_def Let_def)


text \<open>
  C9: a descriptor whose handle has namespace bits set is logged and left out, both of the
  catalog when the sub-HALs enumerate their sensors and of the dynamic catalog and the
  notification passed upstream when dynamic sensors connect; each descriptor with clear bits
  is stamped with the index of its sub-HAL and inserted under the stamped handle. For
  \<open>initializeSensorList\<close>: the catalog is what the descriptors with clear bits alone
  would give; the log grows by one message for each descriptor with bits set, in the order
  of the sub-HALs; every descriptor with clear bits that sub-HAL \<open>i\<close> enumerates has an
  entry under its handle stamped with \<open>i\<close>; and every entry that is not as before is the
  stamped descriptor of some sub-HAL \<open>i\<close>, with its name and its flags (the direct-channel
  flags possibly cleared). The same is stated of the callback for one sub-HAL, and
  \<open>onDynamicSensorsConnected\<close> is given in closed form.
\<close>

theorem malformed_descriptors_dropped:
  "mSensors (initializeSensorList directMask getSensorsList s)
     = mSensors (initializeSensorList directMask
         (\<lambda>i. map_option (filter (\<lambda>d. subHalIndexIsClear (infoSensorHandle d)))
                 (getSensorsList i)) s)
   \<and> errorLog (initializeSensorList directMask getSensorsList s)
     = errorLog s @ concat (map (\<lambda>i.
         case getSensorsList i of
           Some list \<Rightarrow>
             replicate (length (filter (\<lambda>d. \<not> subHalIndexIsClear (infoSensorHandle d)) list))
               SubHalSensorHandleNotClear
         | None \<Rightarrow> [GetSensorsListFailed (getName (mSubHalList s ! i))])
         [0..<length (mSubHalList s)])
   \<and> (\<forall>i < length (mSubHalList s). \<forall>enumerated. getSensorsList i = Some enumerated \<longrightarrow>
        (\<forall>d \<in> set enumerated. subHalIndexIsClear (infoSensorHandle d) \<longrightarrow>
          (\<exists>v. mSensors (initializeSensorList directMask getSensorsList s)
                  (setSubHalIndex (infoSensorHandle d) (of_nat i)) = Some v
              \<and> infoSensorHandle v = setSubHalIndex (infoSensorHandle d) (of_nat i))))
   \<and> (\<forall>k. mSensors (initializeSensorList directMask getSensorsList s) k = mSensors s k
        \<or> (\<exists>i < length (mSubHalList s). \<exists>enumerated d v.
              getSensorsList i = Some enumerated \<and> d \<in> set enumerated
              \<and> subHalIndexIsClear (infoSensorHandle d)
              \<and> k = setSubHalIndex (infoSensorHandle d) (of_nat i)
              \<and> mSensors (initializeSensorList directMask getSensorsList s) k = Some v
              \<and> infoSensorHandle v = k \<and> sensorName v = sensorName d
              \<and> (flags v = flags d \<or> flags v = flags d AND NOT directMask)))
   \<and> mSensors (initializeSensorList_cb directMask subHalIndex list s)
     = mSensors (initializeSensorList_cb directMask subHalIndex
          (filter (\<lambda>d. subHalIndexIsClear (infoSensorHandle d)) list) s)
   \<and> errorLog (initializeSensorList_cb directMask subHalIndex list s)
     = errorLog s @ replicate
         (length (filter (\<lambda>d. \<not> subHalIndexIsClear (infoSensorHandle d)) list))
         SubHalSensorHandleNotClear
   \<and> (\<forall>d \<in> set list. subHalIndexIsClear (infoSensorHandle d) \<longrightarrow>
        (\<exists>v. mSensors (initializeSensorList_cb directMask subHalIndex list s)
                (setSubHalIndex (infoSensorHandle d) (of_nat subHalIndex)) = Some v
            \<and> infoSensorHandle v = setSubHalIndex (infoSensorHandle d) (of_nat subHalIndex)))
   \<and> (\<not> subHalIndexIsClear (infoSensorHandle sensor) \<longrightarrow>
        initializeSensorList_cb directMask subHalIndex [sensor] s
          = ALOGE SubHalSensorHandleNotClear s)
   \<and> (subHalIndexIsClear (infoSensorHandle sensor) \<longrightarrow>
        mSensors (initializeSensorList_cb directMask subHalIndex [sensor] s)
          = (mSensors s)
              (setSubHalIndex (infoSensorHandle sensor) (of_nat subHalIndex) \<mapsto>
                 fst (setDirectChannelFlags directMask
                        (sensor\<lparr>infoSensorHandle :=
                            setSubHalIndex (infoSensorHandle sensor) (of_nat subHalIndex)\<rparr>)
                        subHalIndex s)))
   \<and> onDynamicSensorsConnected added dynSubHalIndex s =
       s\<lparr>mDynamicSensors :=
           foldl (\<lambda>m d. m(infoSensorHandle d \<mapsto> d)) (mDynamicSensors s)
             (map (\<lambda>d. d\<lparr>infoSensorHandle :=
                             setSubHalIndex (infoSensorHandle d) (scast dynSubHalIndex)\<rparr>)
                  (filter (\<lambda>d. subHalIndexIsClear (infoSensorHandle d)) added)),
         errorLog := errorLog s @
           map (\<lambda>d. DynamicSensorHandleNotClear (sensorName d))
             (filter (\<lambda>d. \<not> subHalIndexIsClear (infoSensorHandle d)) added),
         dynamicSensorsConnected := dynamicSensorsConnected s @
           [map (\<lambda>d. d\<lparr>infoSensorHandle :=
                             setSubHalIndex (infoSensorHandle d) (scast dynSubHalIndex)\<rparr>)
                  (filter (\<lambda>d. subHalIndexIsClear (infoSensorHandle d)) added)]\<rparr>"
proof (intro conjI)
  show "mSensors (initializeSensorList directMask getSensorsList s)
     = mSensors (initializeSensorList directMask
         (\<lambda>i. map_option (filter (\<lambda>d. subHalIndexIsClear (infoSensorHandle d)))
                 (getSensorsList i)) s)"
    by (rule initializeSensorList_filter)
  show "errorLog (initializeSensorList directMask getSensorsList s)
     = errorLog s @ concat (map (\<lambda>i.
         case getSensorsList i of
           Some list \<Rightarrow>
             replicate (length (filter (\<lambda>d. \<not> subHalIndexIsClear (infoSensorHandle d)) list))
               SubHalSensorHandleNotClear
         | None \<Rightarrow> [GetSensorsListFailed (getName (mSubHalList s ! i))])
         [0..<length (mSubHalList s)])"
    unfolding initializeSensorList_def by (rule initializeSensorList_fold_errorLog)
  show "\<forall>i < length (mSubHalList s). \<forall>enumerated. getSensorsList i = Some enumerated \<longrightarrow>
        (\<forall>d \<in> set enumerated. subHalIndexIsClear (infoSensorHandle d) \<longrightarrow>
          (\<exists>v. mSensors (initializeSensorList directMask getSensorsList s)
                  (setSubHalIndex (infoSensorHandle d) (of_nat i)) = Some v
              \<and> infoSensorHandle v = setSubHalIndex (infoSensorHandle d) (of_nat i)))"
  proof (intro allI impI ballI)
    fix i enumerated d
    assume i: "i < length (mSubHalList s)" and g: "getSensorsList i = Some enumerated"
      and d: "d \<in> set enumerated" and c: "subHalIndexIsClear (infoSensorHandle d)"
    from i have m: "i \<in> set [0..<length (mSubHalList s)]" by simp
    from initializeSensorList_fold_inserted
      [of i "[0..<length (mSubHalList s)]" getSensorsList enumerated d directMask s,
       OF m g d c]
    show "\<exists>v. mSensors (initializeSensorList directMask getSensorsList s)
                  (setSubHalIndex (infoSensorHandle d) (of_nat i)) = Some v
              \<and> infoSensorHandle v = setSubHalIndex (infoSensorHandle d) (of_nat i)"
      unfolding initializeSensorList_def .
  qed
  show "\<forall>k. mSensors (initializeSensorList directMask getSensorsList s) k = mSensors s k
        \<or> (\<exists>i < length (mSubHalList s). \<exists>enumerated d v.
              getSensorsList i = Some enumerated \<and> d \<in> set enumerated
              \<and> subHalIndexIsClear (infoSensorHandle d)
              \<and> k = setSubHalIndex (infoSensorHandle d) (of_nat i)
              \<and> mSensors (initializeSensorList directMask getSensorsList s) k = Some v
              \<and> infoSensorHandle v = k \<and> sensorName v = sensorName d
              \<and> (flags v = flags d \<or> flags v = flags d AND NOT directMask))"
  proof
    fix k
    from initializeSensorList_fold_origin
      [of directMask getSensorsList "[0..<length (mSubHalList s)]" s k]
    show "mSensors (initializeSensorList directMask getSensorsList s) k = mSensors s k
        \<or> (\<exists>i < length (mSubHalList s). \<exists>enumerated d v.
              getSensorsList i = Some enumerated \<and> d \<in> set enumerated
              \<and> subHalIndexIsClear (infoSensorHandle d)
              \<and> k = setSubHalIndex (infoSensorHandle d) (of_nat i)
              \<and> mSensors (initializeSensorList directMask getSensorsList s) k = Some v
              \<and> infoSensorHandle v = k \<and> sensorName v = sensorName d
              \<and> (flags v = flags d \<or> flags v = flags d AND NOT directMask))"
      unfolding initializeSensorList_def by (elim disjE bexE exE) (simp, force)
  qed
  show "mSensors (initializeSensorList_cb directMask subHalIndex list s)
     = mSensors (initializeSensorList_cb directMask subHalIndex
          (filter (\<lambda>d. subHalIndexIsClear (infoSensorHandle d)) list) s)"
    using initializeSensorList_cb_filter_gen [of s s] by simp
  show "errorLog (initializeSensorList_cb directMask subHalIndex list s)
     = errorLog s @ replicate
         (length (filter (\<lambda>d. \<not> subHalIndexIsClear (infoSensorHandle d)) list))
         SubHalSensorHandleNotClear"
    by (rule initializeSensorList_cb_errorLog)
  show "\<forall>d \<in> set list. subHalIndexIsClear (infoSensorHandle d) \<longrightarrow>
        (\<exists>v. mSensors (initializeSensorList_cb directMask subHalIndex list s)
                (setSubHalIndex (infoSensorHandle d) (of_nat subHalIndex)) = Some v
            \<and> infoSensorHandle v = setSubHalIndex (infoSensorHandle d) (of_nat subHalIndex))"
    using initializeSensorList_cb_inserted by blast
  show "\<not> subHalIndexIsClear (infoSensorHandle sensor) \<longrightarrow>
        initializeSensorList_cb directMask subHalIndex [sensor] s
          = ALOGE SubHalSensorHandleNotClear s"
    by simp
  show "subHalIndexIsClear (infoSensorHandle sensor) \<longrightarrow>
        mSensors (initializeSensorList_cb directMask subHalIndex [sensor] s)
          = (mSensors s)
              (setSubHalIndex (infoSensorHandle sensor) (of_nat subHalIndex) \<mapsto>
                 fst (setDirectChannelFlags directMask
                        (sensor\<lparr>infoSensorHandle :=
                            setSubHalIndex (infoSensorHandle sensor) (of_nat subHalIndex)\<rparr>)
                        subHalIndex s))"
    by (simp add: case_prod_beta setDirectChannelFlags_fields)
  show "onDynamicSensorsConnected added dynSubHalIndex s =
       s\<lparr>mDynamicSensors :=
           foldl (\<lambda>m d. m(infoSensorHandle d \<mapsto> d)) (mDynamicSensors s)
             (map (\<lambda>d. d\<lparr>infoSensorHandle :=
                             setSubHalIndex (infoSensorHandle d) (scast dynSubHalIndex)\<rparr>)
                  (filter (\<lambda>d. subHalIndexIsClear (infoSensorHandle d)) added)),
         errorLog := errorLog s @
           map (\<lambda>d. DynamicSensorHandleNotClear (sensorName d))
             (filter (\<lambda>d. \<not> subHalIndexIsClear (infoSensorHandle d)) added),
         dynamicSensorsConnected := dynamicSensorsConnected s @
           [map (\<lambda>d. d\<lparr>infoSensorHandle :=
                             setSubHalIndex (infoSensorHandle d) (scast dynSubHalIndex)\<rparr>)
                  (filter (\<lambda>d. subHalIndexIsClear (infoSensorHandle d)) added)]\<rparr>"
    by (simp add: onDynamicSensorsConnected_def onDynamicSensorsConnected_loop_eq)
qed


lemma example_handles:
  "subHalIndexIsClear 1" "subHalIndexIsClear 5" "\<not> subHalIndexIsClear 0x02000007"
  "setSubHalIndex 5 1 = 0x01000005" "setSubHalIndex 1 0 = 1" "setSubHalIndex 1 1 = 0x01000001"
  by (simp_all add: subHalIndexIsClear_def kSensorHandleSubHalIndexMask_def setSubHalIndex_def
      kBitsAfterSubHalIndex_def)

theorem malformed_descriptors_dropped_witness:
  "(1 :: nat) < length (mSubHalList twoSubHals)
   \<and> twoEnumerations 1 = Some [exampleSensor 1 ''gyro'', exampleSensor 0x02000007 ''bad'']
   \<and> exampleSensor 1 ''gyro'' \<in> set [exampleSensor 1 ''gyro'', exampleSensor 0x02000007 ''bad'']
   \<and> subHalIndexIsClear (infoSensorHandle (exampleSensor 1 ''gyro''))
   \<and> \<not> subHalIndexIsClear (infoSensorHandle (exampleSensor 0x02000007 ''bad''))
   \<and> mSensors (initializeSensorList 0xF80 twoEnumerations twoSubHals)
       = [1 \<mapsto> exampleSensor 1 ''accel'', 0x01000001 \<mapsto> exampleSensor 0x01000001 ''gyro'']
   \<and> errorLog (initializeSensorList 0xF80 twoEnumerations twoSubHals)
       = [SubHalSensorHandleNotClear]
   \<and> subHalIndexIsClear (infoSensorHandle (exampleSensor 5 ''good''))
   \<and> exampleSensor 5 ''good'' \<in> set [exampleSensor 5 ''good'', exampleSensor 0x02000007 ''bad'']
   \<and> mSensors (initializeSensorList_cb 0xF80 1
                 [exampleSensor 5 ''good'', exampleSensor 0x02000007 ''bad''] twoSubHals)
       = [0x01000005 \<mapsto> exampleSensor 0x01000005 ''good'']
   \<and> errorLog (initializeSensorList_cb 0xF80 1
                 [exampleSensor 5 ''good'', exampleSensor 0x02000007 ''bad''] twoSubHals)
       = [SubHalSensorHandleNotClear]
   \<and> initializeSensorList_cb 0xF80 1 [exampleSensor 0x02000007 ''bad''] twoSubHals
       = ALOGE SubHalSensorHandleNotClear twoSubHals
   \<and> onDynamicSensorsConnected [exampleSensor 5 ''good'', exampleSensor 0x02000007 ''bad''] 1
        twoSubHals
       = twoSubHals\<lparr>mDynamicSensors := [0x01000005 \<mapsto> exampleSensor 0x01000005 ''good''],
                    errorLog := [DynamicSensorHandleNotClear ''bad''],
                    dynamicSensorsConnected := [[exampleSensor 0x01000005 ''good'']]\<rparr>"
proof -
  have f: "mSensors twoSubHals = Map.empty" "mDynamicSensors twoSubHals = Map.empty"
    "errorLog twoSubHals = []" "dynamicSensorsConnected twoSubHals = []"
    "mDirectChannelSubHal twoSubHals = None" "length (mSubHalList twoSubHals) = 2"
    by (simp_all add: twoSubHals_def initialHalProxy_def)
  have u: "[0..<2] = [0, 1]" by (simp add: upt_rec)
  have l: "initializeSensorList 0xF80 twoEnumerations twoSubHals
        = twoSubHals\<lparr>mSensors := [1 \<mapsto> exampleSensor 1 ''accel'',
                                    0x01000001 \<mapsto> exampleSensor 0x01000001 ''gyro''],
                     errorLog := [SubHalSensorHandleNotClear]\<rparr>"
    by (simp add: initializeSensorList_def initializeSensorList_iteration_def
        twoEnumerations_def f u example_handles exampleSensor_def setDirectChannelFlags_def
        ALOGE_def)
  note t = malformed_descriptors_dropped [where directMask = "0xF80" and subHalIndex = 1
      and getSensorsList = twoEnumerations
      and list = "[exampleSensor 5 ''good'', exampleSensor 0x02000007 ''bad'']"
      and s = twoSubHals and sensor = "exampleSensor 0x02000007 ''bad''"
      and added = "[exampleSensor 5 ''good'', exampleSensor 0x02000007 ''bad'']"
      and dynSubHalIndex = 1]
  from t show ?thesis
    by (simp add: l f example_handles exampleSensor_def twoEnumerations_def
        setDirectChannelFlags_def ALOGE_def)
qed

end
